theory Spec2Isabelle
  imports Complex_Main "HOL-Library.Word" "HOL-Library.Signed_Division" "HOL-Library.AList"
    "HOL-Library.Sublist"
begin

section \<open>Data model of the worker (worker.go)\<close>

text \<open>
  Go's \<open>int64\<close> and \<open>time.Duration\<close> (nanoseconds) are 64-bit words read as two's
  complement by \<open>sint\<close>; arithmetic on them wraps. An instant (\<open>time.Time\<close>) is a number
  of nanoseconds on the wall clock.
\<close>

type_synonym int64 = "64 word"
type_synonym Duration = "64 word"
type_synonym Time = int

definition Second :: Duration where
  "Second = 1000000000"

definition Hour :: Duration where
  "Hour = 3600 * Second"

text \<open>Go's \<open>/\<close> on \<open>int64\<close>: the quotient is truncated towards zero.\<close>

definition div64 :: "int64 \<Rightarrow> int64 \<Rightarrow> int64" where
  "div64 a b = word_of_int (sint a sdiv sint b)"

subsection \<open>Errors\<close>

text \<open>
  The sentinel errors of the package are the values that \<open>errors.Is\<close> compares against.
  \<open>ErrUnrecoverable\<close> is built by \<open>fmt.Errorf\<close> with \<open>%w\<close> around \<open>ErrDoNotRetry\<close>, so it
  unwraps to it. \<open>ErrorString\<close> is an error made at run time without wrapping
  (\<open>errors.New\<close>, \<open>fmt.Errorf\<close> without \<open>%w\<close>); \<open>WrapError\<close> is one made with \<open>%w\<close>.
  Modelled from the spec: \<open>ErrEmptyQueue\<close> (the empty-queue signal) is declared in the
  queue file of the package, which is not among the sources; only its identity matters
  here, and the message given for it below is a placeholder.
\<close>

datatype error =
    ErrMaxExecutionTime
  | ErrNumGoroutines
  | ErrIdleWait
  | ErrDoNotRetry
  | ErrQueueNotFound
  | ErrUnrecoverable
  | ErrUnsupported
  | ErrEmptyQueue
  | ErrorString string
  | WrapError string error

fun Unwrap :: "error \<Rightarrow> error option" where
  "Unwrap ErrUnrecoverable = Some ErrDoNotRetry"
| "Unwrap (WrapError m e) = Some e"
| "Unwrap e = None"

fun Error :: "error \<Rightarrow> string" where
  "Error ErrMaxExecutionTime = ''work: max execution time should be > 0''"
| "Error ErrNumGoroutines = ''work: number of goroutines should be > 0''"
| "Error ErrIdleWait = ''work: idle wait should be > 0''"
| "Error ErrDoNotRetry = ''work: do not retry''"
| "Error ErrQueueNotFound = ''work: queue is not found''"
| "Error ErrUnrecoverable = ''work: permanent error: work: do not retry''"
| "Error ErrUnsupported = ''work: unsupported''"
| "Error ErrEmptyQueue = ''work: empty queue''"
| "Error (ErrorString m) = m"
| "Error (WrapError m e) = m"

text \<open>\<open>errors.Is\<close>: walk the chain of wrapped errors, comparing each link to the target.\<close>

fun errors_Is :: "error \<Rightarrow> error \<Rightarrow> bool" where
  "errors_Is (WrapError m e) target =
     (if WrapError m e = target then True else errors_Is e target)"
| "errors_Is ErrUnrecoverable target =
     (if ErrUnrecoverable = target then True else ErrDoNotRetry = target)"
| "errors_Is e target = (e = target)"

text \<open>
  What a call yields: a value, an error, or a panic that unwinds the caller. The panic
  carries the rendering of its value under \<open>%v\<close>.
\<close>

datatype 'a result = Ok 'a | Err error | Panic string

subsection \<open>Jobs, options and the queue capability set\<close>

text \<open>
  Modelled from the spec: the \<open>Job\<close> struct and the option structs are declared outside
  worker.go. The worker reads and writes the retry counter, the last error, the
  updated-at and the enqueue time of a job; the rest is carried along.
\<close>

record Job =
  ID :: string
  Retries :: int64
  LastError :: string
  EnqueuedAt :: Time
  UpdatedAt :: Time
  Payload :: string

record DequeueOptions =
  dNamespace :: string
  dQueueID :: string
  At :: Time
  InvisibleSec :: int64

record EnqueueOptions =
  eNamespace :: string
  eQueueID :: string

record AckOptions =
  aNamespace :: string
  aQueueID :: string

text \<open>
  A backend is a set of operations on its own state \<open>'q\<close>. \<open>Bulk\<close> is the result of the
  type assertion \<open>queue.(BulkDequeuer)\<close>: the two bulk operations when the backend has them.
  \<open>BulkDequeue\<close> returns both a slice and an error, as in Go.
\<close>

record 'q BulkDequeuer =
  BulkDequeue :: "int64 \<Rightarrow> DequeueOptions \<Rightarrow> 'q \<Rightarrow> (Job list \<times> error option) \<times> 'q"
  BulkAck :: "Job list \<Rightarrow> AckOptions \<Rightarrow> 'q \<Rightarrow> error option \<times> 'q"

record 'q Queue =
  Dequeue :: "DequeueOptions \<Rightarrow> 'q \<Rightarrow> Job result \<times> 'q"
  Ack :: "Job \<Rightarrow> AckOptions \<Rightarrow> 'q \<Rightarrow> error option \<times> 'q"
  Enqueue :: "Job \<Rightarrow> EnqueueOptions \<Rightarrow> 'q \<Rightarrow> error option \<times> 'q"
  Bulk :: "'q BulkDequeuer option"

text \<open>
  The state one handler loop works on: the prefetch buffer of its dequeue adapter, its
  ack buffer, and the state of everything outside (backend, clock, error sink).
\<close>

record 'q loop =
  jobs :: "Job list"
  ackJobs :: "Job list"
  world :: 'q

datatype "context" = Background | WithCancel "context" | WithTimeout "context" Duration

text \<open>A handler gets the job by pointer: it returns the job as it left it.\<close>

type_synonym 'q HandleFunc = "Job \<Rightarrow> DequeueOptions \<Rightarrow> 'q \<Rightarrow> unit result \<times> Job \<times> 'q"
type_synonym 'q ContextHandleFunc =
  "context \<Rightarrow> Job \<Rightarrow> DequeueOptions \<Rightarrow> 'q \<Rightarrow> unit result \<times> Job \<times> 'q"
type_synonym 'q HandleMiddleware = "'q HandleFunc \<Rightarrow> 'q HandleFunc"
type_synonym 'q DequeueFunc = "DequeueOptions \<Rightarrow> 'q loop \<Rightarrow> Job result \<times> 'q loop"
type_synonym 'q DequeueMiddleware = "'q DequeueFunc \<Rightarrow> 'q DequeueFunc"

record 'q WorkerOptions =
  Namespace :: string
  Queue :: "'q Queue option"
  ErrorFunc :: "(error \<Rightarrow> 'q \<Rightarrow> 'q) option"

record 'q JobOptions = "'q WorkerOptions" +
  MaxExecutionTime :: Duration
  IdleWait :: Duration
  NumGoroutines :: int64
  DequeueMiddleware :: "'q DequeueMiddleware list"
  HandleMiddleware :: "'q HandleMiddleware list"

record 'q handler =
  QueueID :: string
  HandleFunc :: "'q ContextHandleFunc"
  JobOpts :: "'q JobOptions"

text \<open>
  The worker: its options, the cancel function (\<open>None\<close> is Go's nil) and whether it was
  called, the counter of its wait group, and the handler registry, a map from queue id to
  handler record (kept as an association list with one entry per key).
\<close>

record 'q Worker =
  opt :: "'q WorkerOptions"
  cancel :: "unit option"
  cancelled :: bool
  wg :: nat
  handlerMap :: "(string \<times> 'q handler) list"

section \<open>Registration\<close>

definition NewWorker :: "'q WorkerOptions \<Rightarrow> 'q Worker" where
  "NewWorker wo = \<lparr>opt = wo, cancel = None, cancelled = False, wg = 0, handlerMap = []\<rparr>"

definition Validate :: "('q, 'x) JobOptions_scheme \<Rightarrow> error option" where
  "Validate jo =
     (if sint (MaxExecutionTime jo) \<le> 0 then Some ErrMaxExecutionTime
      else if sint (IdleWait jo) \<le> 0 then Some ErrIdleWait
      else if sint (NumGoroutines jo) \<le> 0 then Some ErrNumGoroutines
      else None)"

definition RegisterWithContext ::
  "string \<Rightarrow> 'q ContextHandleFunc \<Rightarrow> 'q JobOptions \<Rightarrow> 'q Worker \<Rightarrow> error option \<times> 'q Worker" where
  "RegisterWithContext queueID h jo w =
     (case Validate jo of
        Some err \<Rightarrow> (Some err, w)
      | None \<Rightarrow>
          (None, w\<lparr>handlerMap :=
             AList.update queueID
               \<lparr>QueueID = queueID,
                HandleFunc = (\<lambda>ctx job dopt. h (WithTimeout ctx (MaxExecutionTime jo)) job dopt),
                JobOpts = jo\<rparr>
               (handlerMap w)\<rparr>))"

definition Register ::
  "string \<Rightarrow> 'q HandleFunc \<Rightarrow> 'q JobOptions \<Rightarrow> 'q Worker \<Rightarrow> error option \<times> 'q Worker" where
  "Register queueID h jo w = RegisterWithContext queueID (\<lambda>ctx job dopt. h job dopt) jo w"

section \<open>What the worker takes from its environment\<close>

text \<open>
  The settings the retry middleware writes into the backoff schedule before \<open>Reset\<close>;
  the other fields keep the library's defaults. The two factors are the decimal
  constants of the source.
\<close>

record ExponentialBackOff =
  InitialInterval :: Duration
  RandomizationFactor :: rat
  Multiplier :: rat
  MaxInterval :: Duration
  MaxElapsedTime :: Duration

text \<open>
  The clock, the stack dump, the default error sink, the wait of the idle middleware and
  the backoff library are not part of worker.go: they are parameters. \<open>Reset\<close> gives the
  state of a schedule made with the settings and reset; \<open>NextBackOff\<close> advances it (its
  random draw comes from the state outside).
\<close>

record ('q, 'b) Runtime =
  time_Now :: "'q \<Rightarrow> Time \<times> 'q"
  debug_Stack :: "'q \<Rightarrow> string"
  Println :: "error \<Rightarrow> 'q \<Rightarrow> 'q"
  Wait :: "Duration \<Rightarrow> 'q \<Rightarrow> 'q"
  Reset :: "ExponentialBackOff \<Rightarrow> 'b"
  NextBackOff :: "'b \<Rightarrow> 'q \<Rightarrow> Duration \<times> 'b \<times> 'q"

section \<open>Supervisor: Start and Stop\<close>

text \<open>
  \<open>Start\<close> stores the cancel function and adds one to the wait group for every loop it
  spawns. The loops themselves run concurrently and are described one cycle at a time
  below.
\<close>

definition Start :: "'q Worker \<Rightarrow> 'q Worker" where
  "Start w =
     w\<lparr>cancel := Some (),
       wg := wg w + sum_list (map (\<lambda>(k, h). nat (sint (NumGoroutines (JobOpts h)))) (handlerMap w))\<rparr>"

text \<open>
  \<open>Stop\<close> calls the cancel function when there is one, then waits for the wait group.
  \<open>Wait\<close> returns at once when the counter is zero; otherwise the call is left waiting
  for the loops to finish.
\<close>

datatype 'q stopped = Returned "'q Worker" | Waiting "'q Worker"

definition Stop :: "'q Worker \<Rightarrow> 'q stopped" where
  "Stop w =
     (let w1 = (case cancel w of Some c \<Rightarrow> w\<lparr>cancelled := True\<rparr> | None \<Rightarrow> w)
      in if wg w1 = 0 then Returned w1 else Waiting w1)"

section \<open>Dequeue adapter and idle wait\<close>

text \<open>Lines 308 to 310: \<open>jobs[0]\<close> panics on an empty slice.\<close>

definition serveFirst :: "'q loop \<Rightarrow> Job result \<times> 'q loop" where
  "serveFirst st =
     (case jobs st of
        [] \<Rightarrow> (Panic ''runtime error: index out of range [0] with length 0'', st)
      | job # rest \<Rightarrow> (Ok job, st\<lparr>jobs := rest\<rparr>))"

definition getDequeueFunc :: "'q Queue \<Rightarrow> 'q DequeueFunc" where
  "getDequeueFunc queue =
     (case Bulk queue of
        None \<Rightarrow>
          (\<lambda>dopt st. case Dequeue queue dopt (world st) of (r, s1) \<Rightarrow> (r, st\<lparr>world := s1\<rparr>))
      | Some bulkDeq \<Rightarrow>
          (\<lambda>dopt st.
             if length (jobs st) = 0 then
               if InvisibleSec dopt = 0
               then (Panic ''runtime error: integer divide by zero'', st)
               else
                 let count0 = div64 60 (InvisibleSec dopt);
                     count = (if sint count0 \<le> 0 then 1 else count0);
                     bulkOpt = dopt\<lparr>InvisibleSec := InvisibleSec dopt * count\<rparr>
                 in case BulkDequeue bulkDeq count bulkOpt (world st) of
                      ((js, err), s1) \<Rightarrow>
                        (case err of
                           Some e \<Rightarrow> (Err e, st\<lparr>jobs := js, world := s1\<rparr>)
                         | None \<Rightarrow> serveFirst (st\<lparr>jobs := js, world := s1\<rparr>))
             else serveFirst st))"

definition idleWait :: "('q, 'b) Runtime \<Rightarrow> Duration \<Rightarrow> 'q DequeueMiddleware" where
  "idleWait rt d f =
     (\<lambda>dopt st.
        case f dopt st of
          (Err err, st1) \<Rightarrow>
            (Err err,
             if errors_Is err ErrEmptyQueue then st1\<lparr>world := Wait rt d (world st1)\<rparr> else st1)
        | (Panic p, st1) \<Rightarrow> (Panic p, st1)
        | (Ok job, st1) \<Rightarrow> (Ok job, st1))"

section \<open>Handle middleware: panic isolation and retry\<close>

definition catchPanic :: "('q, 'b) Runtime \<Rightarrow> 'q HandleMiddleware" where
  "catchPanic rt f =
     (\<lambda>job dopt s.
        case f job dopt s of
          (Panic r, job1, s1) \<Rightarrow>
            (Err (ErrorString (''panic: '' @ r @ [CHR 0x0A, CHR 0x0A] @ debug_Stack rt s1)), job1, s1)
        | (Err err, job1, s1) \<Rightarrow> (Err err, job1, s1)
        | (Ok u, job1, s1) \<Rightarrow> (Ok (), job1, s1))"

text \<open>
  Lines 408 to 411: \<open>for i := int64(0); i < job.Retries; i++ { next = b.NextBackOff() }\<close>.
  The counter stays below \<open>job.Retries\<close>, so it does not wrap.
\<close>

function backoffLoop ::
  "('q, 'b) Runtime \<Rightarrow> int \<Rightarrow> int64 \<Rightarrow> 'b \<Rightarrow> Duration \<Rightarrow> 'q \<Rightarrow> Duration \<times> 'q" where
  "backoffLoop rt i n b next s =
     (if i < sint n
      then (case NextBackOff rt b s of (d, b1, s1) \<Rightarrow> backoffLoop rt (i + 1) n b1 d s1)
      else (next, s))"
  by pat_completeness auto
termination
  by (relation "measure (\<lambda>(rt, i, n, b, next, s). nat (sint n - i))") auto

declare backoffLoop.simps [simp del]

text \<open>Lines 400 to 405: the settings of the schedule.\<close>

definition retryBackOff :: ExponentialBackOff where
  "retryBackOff =
     \<lparr>InitialInterval = 2 * Second,
      RandomizationFactor = 2 / 10,
      Multiplier = 16 / 10,
      MaxInterval = 24 * Hour,
      MaxElapsedTime = 0\<rparr>"

definition retry :: "('q, 'b) Runtime \<Rightarrow> 'q Queue \<Rightarrow> 'q HandleMiddleware" where
  "retry rt queue f =
     (\<lambda>job dopt s.
        case f job dopt s of
          (Panic p, job1, s1) \<Rightarrow> (Panic p, job1, s1)
        | (Ok u, job1, s1) \<Rightarrow> (Ok (), job1, s1)
        | (Err err, job1, s1) \<Rightarrow>
            if errors_Is err ErrUnrecoverable then (Ok (), job1, s1)
            else if errors_Is err ErrDoNotRetry then (Err err, job1, s1)
            else
              (case time_Now rt s1 of
                 (now, s2) \<Rightarrow>
                   let job2 = job1\<lparr>Retries := Retries job1 + 1,
                                   LastError := Error err,
                                   UpdatedAt := now\<rparr>;
                       b = Reset rt retryBackOff
                   in case backoffLoop rt 0 (Retries job2) b 0 s2 of
                        (next, s3) \<Rightarrow>
                          let job3 = job2\<lparr>EnqueuedAt := now + sint next\<rparr>
                          in case Enqueue queue job3
                                    \<lparr>eNamespace = dNamespace dopt, eQueueID = dQueueID dopt\<rparr> s3 of
                               (enqueueErr, s4) \<Rightarrow> (Err err, job3, s4)))"

section \<open>The handler loop: pipelines, flush and one cycle\<close>

definition flushIntv :: Duration where
  "flushIntv = Second"

text \<open>The effective queue, namespace and error sink of a loop (lines 171 to 186).\<close>

definition startQueue :: "'q Worker \<Rightarrow> 'q handler \<Rightarrow> 'q Queue option" where
  "startQueue w h = (case Queue (JobOpts h) of Some q \<Rightarrow> Some q | None \<Rightarrow> Queue (opt w))"

definition startNamespace :: "'q Worker \<Rightarrow> 'q handler \<Rightarrow> string" where
  "startNamespace w h =
     (if Namespace (JobOpts h) \<noteq> [] then Namespace (JobOpts h) else Namespace (opt w))"

definition startErrFunc :: "('q, 'b) Runtime \<Rightarrow> 'q Worker \<Rightarrow> 'q handler \<Rightarrow> error \<Rightarrow> 'q \<Rightarrow> 'q" where
  "startErrFunc rt w h =
     (case ErrorFunc (JobOpts h) of
        Some f \<Rightarrow> f
      | None \<Rightarrow> (case ErrorFunc (opt w) of Some f \<Rightarrow> f | None \<Rightarrow> Println rt))"

text \<open>Lines 188 to 192: adapter, then the user's middleware in list order, then idle wait.\<close>

definition dequeuePipeline :: "('q, 'b) Runtime \<Rightarrow> 'q Queue \<Rightarrow> 'q handler \<Rightarrow> 'q DequeueFunc" where
  "dequeuePipeline rt queue h =
     idleWait rt (IdleWait (JobOpts h))
       (foldl (\<lambda>dequeue mw. mw dequeue) (getDequeueFunc queue) (DequeueMiddleware (JobOpts h)))"

text \<open>Lines 194 to 199: the registered handler under the user's middleware.\<close>

definition userHandle :: "context \<Rightarrow> 'q handler \<Rightarrow> 'q HandleFunc" where
  "userHandle ctx h =
     foldl (\<lambda>handle mw. mw handle) (\<lambda>job dopt. HandleFunc h ctx job dopt)
       (HandleMiddleware (JobOpts h))"

text \<open>Lines 200 and 201: panic isolation, then retry around it.\<close>

definition handlePipeline ::
  "('q, 'b) Runtime \<Rightarrow> 'q Queue \<Rightarrow> context \<Rightarrow> 'q handler \<Rightarrow> 'q HandleFunc" where
  "handlePipeline rt queue ctx h = retry rt queue (catchPanic rt (userHandle ctx h))"

fun ackEach :: "'q Queue \<Rightarrow> AckOptions \<Rightarrow> Job list \<Rightarrow> 'q \<Rightarrow> error option \<times> 'q" where
  "ackEach queue aopt [] s = (None, s)"
| "ackEach queue aopt (job # rest) s =
     (case Ack queue job aopt s of
        (Some err, s1) \<Rightarrow> (Some err, s1)
      | (None, s1) \<Rightarrow> ackEach queue aopt rest s1)"

definition flush :: "'q Queue \<Rightarrow> string \<Rightarrow> 'q handler \<Rightarrow> 'q loop \<Rightarrow> error option \<times> 'q loop" where
  "flush queue ns h st =
     (let aopt = \<lparr>aNamespace = ns, aQueueID = QueueID h\<rparr>
      in case Bulk queue of
           Some bulkDeq \<Rightarrow>
             (case BulkAck bulkDeq (ackJobs st) aopt (world st) of
                (Some err, s1) \<Rightarrow> (Some err, st\<lparr>world := s1\<rparr>)
              | (None, s1) \<Rightarrow> (None, st\<lparr>ackJobs := [], world := s1\<rparr>))
         | None \<Rightarrow>
             (case ackEach queue aopt (ackJobs st) (world st) of
                (Some err, s1) \<Rightarrow> (Some err, st\<lparr>world := s1\<rparr>)
              | (None, s1) \<Rightarrow> (None, st\<lparr>ackJobs := [], world := s1\<rparr>)))"

text \<open>Lines 250 to 255: the options of one dequeue cycle.\<close>

definition cycleOptions :: "string \<Rightarrow> 'q handler \<Rightarrow> Time \<Rightarrow> DequeueOptions" where
  "cycleOptions ns h now =
     \<lparr>dNamespace = ns,
      dQueueID = QueueID h,
      At = now,
      InvisibleSec = div64 (2 * (MaxExecutionTime (JobOpts h) + flushIntv)) Second\<rparr>"

text \<open>Lines 249 to 277: the default branch of the select, one dequeue-then-handle cycle.\<close>

definition cycle ::
  "('q, 'b) Runtime \<Rightarrow> 'q Queue \<Rightarrow> string \<Rightarrow> (error \<Rightarrow> 'q \<Rightarrow> 'q) \<Rightarrow> context \<Rightarrow> 'q handler \<Rightarrow>
     'q loop \<Rightarrow> unit result \<times> 'q loop" where
  "cycle rt queue ns errFunc ctx h st =
     (case time_Now rt (world st) of
        (now, s0) \<Rightarrow>
          let dopt = cycleOptions ns h now
          in case dequeuePipeline rt queue h dopt (st\<lparr>world := s0\<rparr>) of
               (Panic p, st1) \<Rightarrow> (Panic p, st1)
             | (Err err, st1) \<Rightarrow>
                 (Err err,
                  if \<not> errors_Is err ErrEmptyQueue
                  then st1\<lparr>world := errFunc err (world st1)\<rparr> else st1)
             | (Ok job, st1) \<Rightarrow>
                 (case handlePipeline rt queue ctx h job dopt (world st1) of
                    (Panic p, job1, s2) \<Rightarrow> (Panic p, st1\<lparr>world := s2\<rparr>)
                  | (Err err, job1, s2) \<Rightarrow> (Err err, st1\<lparr>world := s2\<rparr>)
                  | (Ok u, job1, s2) \<Rightarrow>
                      let st3 = st1\<lparr>ackJobs := ackJobs st1 @ [job1], world := s2\<rparr>
                      in if 1000 \<le> length (ackJobs st3)
                         then (case flush queue ns h st3 of
                                 (Some err, st4) \<Rightarrow>
                                   (Err err, st4\<lparr>world := errFunc err (world st4)\<rparr>)
                               | (None, st4) \<Rightarrow> (Ok (), st4))
                         else (Ok (), st3)))"

section \<open>Notions of the specification\<close>

text \<open>
  The schedule of the specification, in its words: initial interval 2 s, multiplier 1.6,
  randomisation factor 0.2, max interval 24 h (86400 s), no cap on total elapsed time.
  Durations are in nanoseconds.
\<close>

definition specSchedule :: ExponentialBackOff where
  "specSchedule =
     \<lparr>InitialInterval = 2000000000,
      RandomizationFactor = 1 / 5,
      Multiplier = 8 / 5,
      MaxInterval = 86400000000000,
      MaxElapsedTime = 0\<rparr>"

text \<open>
  The delay of the specification: a fresh schedule with those settings is advanced \<open>k\<close>
  times and the last value is used.
\<close>

primrec advance :: "('q, 'b) Runtime \<Rightarrow> nat \<Rightarrow> 'b \<Rightarrow> Duration \<Rightarrow> 'q \<Rightarrow> Duration \<times> 'q" where
  "advance rt 0 b next s = (next, s)"
| "advance rt (Suc k) b next s =
     (case NextBackOff rt b s of (d, b1, s1) \<Rightarrow> advance rt k b1 d s1)"

definition delay :: "('q, 'b) Runtime \<Rightarrow> nat \<Rightarrow> 'q \<Rightarrow> Duration \<times> 'q" where
  "delay rt k s = advance rt k (Reset rt specSchedule) 0 s"

text \<open>The state outside after every job of a list was acked in order, one call per job.\<close>

primrec ackStates :: "'q Queue \<Rightarrow> AckOptions \<Rightarrow> Job list \<Rightarrow> 'q \<Rightarrow> 'q" where
  "ackStates queue aopt [] s = s"
| "ackStates queue aopt (job # rest) s = ackStates queue aopt rest (snd (Ack queue job aopt s))"

text \<open>Calling a dequeue function once for each element of a list of options.\<close>

primrec dequeueMany ::
  "'q DequeueFunc \<Rightarrow> DequeueOptions list \<Rightarrow> 'q loop \<Rightarrow> Job result list \<times> 'q loop" where
  "dequeueMany f [] st = ([], st)"
| "dequeueMany f (dopt # dopts) st =
     (case f dopt st of
        (r, st1) \<Rightarrow> (case dequeueMany f dopts st1 of (rs, st2) \<Rightarrow> (r # rs, st2)))"

text \<open>A worker on which only registrations were made.\<close>

primrec registerAll ::
  "(string \<times> 'q ContextHandleFunc \<times> 'q JobOptions) list \<Rightarrow> 'q Worker \<Rightarrow> 'q Worker" where
  "registerAll [] w = w"
| "registerAll (r # rs) w =
     registerAll rs (snd (RegisterWithContext (fst r) (fst (snd r)) (snd (snd r)) w))"

section \<open>Example backends and handlers\<close>

text \<open>
  A backend whose state is the log of the calls it received. Its single-job dequeue
  always finds the queue empty, it refuses to ack the job named \<open>bad\<close>, and it refuses
  every enqueue.
\<close>

datatype call =
    Dequeued DequeueOptions
  | Acked Job AckOptions
  | Enqueued Job EnqueueOptions
  | BulkDequeued int64 DequeueOptions
  | BulkAcked "Job list" AckOptions
  | Reported error
  | Waited Duration

definition testRuntime :: "(call list, Duration) Runtime" where
  "testRuntime =
     \<lparr>time_Now = (\<lambda>s. (1000, s)),
      debug_Stack = (\<lambda>s. ''goroutine 1 [running]:''),
      Println = (\<lambda>e s. s @ [Reported e]),
      Wait = (\<lambda>d s. s @ [Waited d]),
      Reset = InitialInterval,
      NextBackOff = (\<lambda>b s. (b, 2 * b, s))\<rparr>"

definition testQueue :: "call list Queue" where
  "testQueue =
     \<lparr>Dequeue = (\<lambda>d s. (Err ErrEmptyQueue, s @ [Dequeued d])),
      Ack = (\<lambda>j a s. (if ID j = ''bad'' then Some (ErrorString ''ack refused'') else None,
                       s @ [Acked j a])),
      Enqueue = (\<lambda>j e s. (Some ErrUnsupported, s @ [Enqueued j e])),
      Bulk = None\<rparr>"

definition testBulkQueue :: "Job list \<Rightarrow> call list Queue" where
  "testBulkQueue js =
     testQueue\<lparr>Bulk :=
       Some \<lparr>BulkDequeue = (\<lambda>c d s. ((js, None), s @ [BulkDequeued c d])),
             BulkAck = (\<lambda>ks a s. (None, s @ [BulkAcked ks a]))\<rparr>\<rparr>"

text \<open>A bulk backend that reports an empty queue by an empty slice and a given error value.\<close>

definition testEmptyBulkQueue :: "error option \<Rightarrow> call list Queue" where
  "testEmptyBulkQueue reply =
     testQueue\<lparr>Bulk :=
       Some \<lparr>BulkDequeue = (\<lambda>c d s. (([], reply), s @ [BulkDequeued c d])),
             BulkAck = (\<lambda>ks a s. (None, s @ [BulkAcked ks a]))\<rparr>\<rparr>"

text \<open>Whether every job of a list is acked without error, one call after the other.\<close>

primrec acksSucceed :: "'q Queue \<Rightarrow> AckOptions \<Rightarrow> Job list \<Rightarrow> 'q \<Rightarrow> bool" where
  "acksSucceed queue aopt [] s = True"
| "acksSucceed queue aopt (job # rest) s =
     (fst (Ack queue job aopt s) = None \<and> acksSucceed queue aopt rest (snd (Ack queue job aopt s)))"

definition testJob :: "string \<Rightarrow> Job" where
  "testJob i = \<lparr>ID = i, Retries = 0, LastError = [], EnqueuedAt = 0, UpdatedAt = 0, Payload = []\<rparr>"

definition testOptions :: "Duration \<Rightarrow> call list JobOptions" where
  "testOptions met =
     \<lparr>Namespace = [], Queue = None, ErrorFunc = None,
      MaxExecutionTime = met, IdleWait = 50000000, NumGoroutines = 1,
      DequeueMiddleware = [], HandleMiddleware = []\<rparr>"

definition testHandler :: "unit result \<Rightarrow> call list handler" where
  "testHandler r =
     \<lparr>QueueID = ''q'', HandleFunc = (\<lambda>ctx job dopt s. (r, job, s)), JobOpts = testOptions Second\<rparr>"

definition testLoop :: "Job list \<Rightarrow> Job list \<Rightarrow> call list loop" where
  "testLoop prefetched handled = \<lparr>jobs = prefetched, ackJobs = handled, world = []\<rparr>"

section \<open>Errors and their chains\<close>

text \<open>\<open>errors_Is\<close> is the loop of \<open>errors.Is\<close>: compare, unwrap, repeat.\<close>

lemma errors_Is_unfold:
  "errors_Is e t = (e = t \<or> (case Unwrap e of Some e' \<Rightarrow> errors_Is e' t | None \<Rightarrow> False))"
  by (cases e) auto

section \<open>Registration\<close>

text \<open>
  C8. Registration fails exactly when the maximum execution time, the idle wait or the
  number of goroutines is not positive. The three checks run in that order and each has
  its own error; a failed registration leaves the worker as it was. A successful one stores
  the record (queue id, the handler under its deadline of the maximum execution time, the
  options) under the queue id and changes no other entry, and a second successful
  registration under the same queue id replaces the record without adding a key. The form
  without context is the same registration with a handler that drops the context.
\<close>

theorem Register_validates:
  fixes w :: "'q Worker" and jo jo2 :: "'q JobOptions"
  shows
  "(let r = RegisterWithContext qid h jo w;
        r2 = RegisterWithContext qid h2 jo2 (snd r)
    in
      (fst r \<noteq> None \<longleftrightarrow>
         sint (MaxExecutionTime jo) \<le> 0 \<or> sint (IdleWait jo) \<le> 0 \<or> sint (NumGoroutines jo) \<le> 0)
    \<and> (sint (MaxExecutionTime jo) \<le> 0 \<longrightarrow> fst r = Some ErrMaxExecutionTime)
    \<and> (0 < sint (MaxExecutionTime jo) \<and> sint (IdleWait jo) \<le> 0 \<longrightarrow> fst r = Some ErrIdleWait)
    \<and> (0 < sint (MaxExecutionTime jo) \<and> 0 < sint (IdleWait jo) \<and> sint (NumGoroutines jo) \<le> 0 \<longrightarrow>
          fst r = Some ErrNumGoroutines)
    \<and> distinct [ErrMaxExecutionTime, ErrIdleWait, ErrNumGoroutines]
    \<and> (fst r \<noteq> None \<longrightarrow> snd r = w)
    \<and> (fst r = None \<longrightarrow>
          map_of (handlerMap (snd r)) qid =
            Some \<lparr>QueueID = qid,
                  HandleFunc = (\<lambda>ctx job dopt. h (WithTimeout ctx (MaxExecutionTime jo)) job dopt),
                  JobOpts = jo\<rparr>
          \<and> (\<forall>k. k \<noteq> qid \<longrightarrow> map_of (handlerMap (snd r)) k = map_of (handlerMap w) k)
          \<and> snd r = w\<lparr>handlerMap := handlerMap (snd r)\<rparr>)
    \<and> (fst r = None \<and> fst r2 = None \<longrightarrow>
          map_of (handlerMap (snd r2)) qid =
            Some \<lparr>QueueID = qid,
                  HandleFunc = (\<lambda>ctx job dopt. h2 (WithTimeout ctx (MaxExecutionTime jo2)) job dopt),
                  JobOpts = jo2\<rparr>
          \<and> map fst (handlerMap (snd r2)) = map fst (handlerMap (snd r)))
    \<and> Register qid g jo w = RegisterWithContext qid (\<lambda>ctx job dopt. g job dopt) jo w)"
  by (simp add: Let_def Register_def RegisterWithContext_def Validate_def update_conv'
        update_keys)

text \<open>The three failures, a success and a replacement on the example worker.\<close>

theorem Register_validates_witness:
  "fst (RegisterWithContext ''q'' (HandleFunc (testHandler (Ok ()))) (testOptions 0)
          (NewWorker \<lparr>Namespace = ''ns'', Queue = Some testQueue, ErrorFunc = None\<rparr>))
     = Some ErrMaxExecutionTime
   \<and> fst (RegisterWithContext ''q'' (HandleFunc (testHandler (Ok ()))) ((testOptions Second)\<lparr>IdleWait := 0\<rparr>)
          (NewWorker \<lparr>Namespace = ''ns'', Queue = Some testQueue, ErrorFunc = None\<rparr>))
     = Some ErrIdleWait
   \<and> RegisterWithContext ''q'' (HandleFunc (testHandler (Ok ()))) ((testOptions Second)\<lparr>NumGoroutines := - 1\<rparr>)
          (NewWorker \<lparr>Namespace = ''ns'', Queue = Some testQueue, ErrorFunc = None\<rparr>)
     = (Some ErrNumGoroutines, NewWorker \<lparr>Namespace = ''ns'', Queue = Some testQueue, ErrorFunc = None\<rparr>)
   \<and> fst (RegisterWithContext ''q'' (HandleFunc (testHandler (Ok ()))) (testOptions Second)
          (NewWorker \<lparr>Namespace = ''ns'', Queue = Some testQueue, ErrorFunc = None\<rparr>)) = None
   \<and> map (\<lambda>kv. (fst kv, MaxExecutionTime (JobOpts (snd kv))))
        (handlerMap (snd (RegisterWithContext ''q'' (HandleFunc (testHandler (Err ErrDoNotRetry)))
           (testOptions (3 * Second))
           (snd (RegisterWithContext ''q'' (HandleFunc (testHandler (Ok ()))) (testOptions Second)
              (NewWorker \<lparr>Namespace = ''ns'', Queue = Some testQueue, ErrorFunc = None\<rparr>))))))
     = [(''q'', 3 * Second)]"
  using
    Register_validates [where qid = "''q''" and h = "HandleFunc (testHandler (Ok ()))"
      and jo = "testOptions 0"
      and w = "NewWorker \<lparr>Namespace = ''ns'', Queue = Some testQueue, ErrorFunc = None\<rparr>"]
    Register_validates [where qid = "''q''" and h = "HandleFunc (testHandler (Ok ()))"
      and jo = "(testOptions Second)\<lparr>IdleWait := 0\<rparr>"
      and w = "NewWorker \<lparr>Namespace = ''ns'', Queue = Some testQueue, ErrorFunc = None\<rparr>"]
    Register_validates [where qid = "''q''" and h = "HandleFunc (testHandler (Ok ()))"
      and jo = "(testOptions Second)\<lparr>NumGoroutines := - 1\<rparr>"
      and w = "NewWorker \<lparr>Namespace = ''ns'', Queue = Some testQueue, ErrorFunc = None\<rparr>"]
    Register_validates [where qid = "''q''" and h = "HandleFunc (testHandler (Ok ()))"
      and jo = "testOptions Second"
      and w = "NewWorker \<lparr>Namespace = ''ns'', Queue = Some testQueue, ErrorFunc = None\<rparr>"
      and ?h2.0 = "HandleFunc (testHandler (Err ErrDoNotRetry))"
      and ?jo2.0 = "testOptions (3 * Second)"]
  by (simp add: Let_def RegisterWithContext_def Validate_def testOptions_def Second_def
        NewWorker_def)

section \<open>Visibility timeout of a dequeue cycle\<close>

text \<open>Signed 64-bit arithmetic agrees with the integers as long as nothing wraps.\<close>

lemma sint_Second: "sint Second = 1000000000"
  by (simp add: Second_def)

lemma sint_in_range:
  "- (2 ^ 63) \<le> k \<Longrightarrow> k < 2 ^ 63 \<Longrightarrow> sint (word_of_int k :: 64 word) = k"
  by (simp only: sint_sbintrunc') (rule signed_take_bit_int_eq_self; simp)

lemma sint_add_no_wrap:
  fixes a b :: "64 word"
  assumes "- (2 ^ 63) \<le> sint a + sint b" "sint a + sint b < 2 ^ 63"
  shows "sint (a + b) = sint a + sint b"
  by (simp only: sint_word_add) (rule signed_take_bit_int_eq_self; use assms in simp)

lemma sint_double_no_wrap:
  fixes a :: "64 word"
  assumes "- (2 ^ 63) \<le> 2 * sint a" "2 * sint a < 2 ^ 63"
  shows "sint (2 * a) = 2 * sint a"
proof -
  have "sint (a + a) = sint a + sint a"
    by (rule sint_add_no_wrap) (use assms in simp_all)
  then show ?thesis by (simp only: mult_2)
qed

lemma sdiv_nonneg: "0 \<le> k \<Longrightarrow> 0 < l \<Longrightarrow> k sdiv l = k div (l::int)"
  by (simp add: signed_divide_int_def sgn_if)

text \<open>
  Without overflow the invisible seconds are the quotient of twice the sum of maximum
  execution time and flush interval by one second, rounded down.
\<close>

lemma InvisibleSec_value:
  assumes "0 < sint (MaxExecutionTime (JobOpts h))"
      and "sint (MaxExecutionTime (JobOpts h)) < 2 ^ 62 - 1000000000"
  shows "sint (InvisibleSec (cycleOptions ns h now)) =
           (2 * (sint (MaxExecutionTime (JobOpts h)) + 1000000000)) div 1000000000"
proof -
  define m where "m = sint (MaxExecutionTime (JobOpts h))"
  define x where "x = MaxExecutionTime (JobOpts h) + flushIntv"
  have m: "0 < m" "m < 4611686017427387904"
    using assms by (simp_all add: m_def)
  have s: "sint x = m + 1000000000"
    unfolding x_def m_def
    by (rule trans [OF sint_add_no_wrap]) (use m in \<open>simp_all add: flushIntv_def sint_Second m_def\<close>)
  have d: "sint (2 * x) = 2 * (m + 1000000000)"
    by (rule trans [OF sint_double_no_wrap]) (use m s in simp_all)
  define qv where "qv = (2 * (m + 1000000000)) div 1000000000"
  have "qv \<le> 2 * (m + 1000000000)"
    unfolding qv_def using m by (intro int_div_le_self) simp
  moreover have "2 * (m + 1000000000) < 9223372036854775808"
    using m by simp
  ultimately have q: "qv < 9223372036854775808"
    by (rule le_less_trans)
  have q0: "0 \<le> qv"
    unfolding qv_def using m by (intro pos_imp_zdiv_nonneg_iff [THEN iffD2]) simp_all
  have A: "(2 * (m + 1000000000)) sdiv 1000000000 = qv"
    unfolding qv_def using m by (intro sdiv_nonneg) simp_all
  have B: "sint (word_of_int qv :: 64 word) = qv"
    using q q0 by (intro sint_in_range) simp_all
  have C: "sint (div64 (2 * x) Second) = qv"
    unfolding div64_def d sint_Second A by (rule B)
  have "InvisibleSec (cycleOptions ns h now) = div64 (2 * x) Second"
    by (simp only: cycleOptions_def x_def DequeueOptions.simps)
  then show ?thesis
    using C by (simp only: qv_def m_def)
qed

lemma sint_flushIntv: "sint flushIntv = 1000000000"
  by (simp add: flushIntv_def Second_def)

lemma floor_seconds_bounds:
  fixes a :: int
  shows "a div 1000000000 * 1000000000 \<le> a"
    and "a < (a div 1000000000 + 1) * 1000000000"
    and "(a div 1000000000 * 1000000000 = a) = (1000000000 dvd a)"
proof -
  define q where "q = a div 1000000000"
  define r where "r = a mod 1000000000"
  have e: "a = q * 1000000000 + r"
    unfolding q_def r_def by (rule div_mult_mod_eq [symmetric])
  have r: "0 \<le> r" "r < 1000000000"
    unfolding r_def by simp_all
  show "a div 1000000000 * 1000000000 \<le> a"
    using e r unfolding q_def [symmetric] by linarith
  show "a < (a div 1000000000 + 1) * 1000000000"
    using e r unfolding q_def [symmetric] by (simp add: distrib_right)
  have "(q * 1000000000 = a) = (r = 0)"
    using e by linarith
  then show "(a div 1000000000 * 1000000000 = a) = (1000000000 dvd a)"
    unfolding q_def [symmetric] r_def by (simp add: dvd_eq_mod_eq_0)
qed

text \<open>
  C1, as amended. For options accepted by validation whose maximum execution time is
  below \<open>2^62 ns - 1 s\<close> (so that doubling does not wrap), the invisible seconds of a cycle
  are twice (maximum execution time + flush interval) in whole seconds, rounded down. Read
  as a duration they are at most that doubled sum and miss it by less than one second;
  they are at least the maximum execution time plus one flush interval; and they equal
  the doubled sum exactly when the maximum execution time is a multiple of half a second.
\<close>

theorem InvisibleSec_whole_seconds:
  assumes "Validate (JobOpts h) = None"
      and "sint (MaxExecutionTime (JobOpts h)) < 2 ^ 62 - 1000000000"
  shows "sint (InvisibleSec (cycleOptions ns h now)) =
           (2 * (sint (MaxExecutionTime (JobOpts h)) + sint flushIntv)) div sint Second
       \<and> sint (InvisibleSec (cycleOptions ns h now)) * sint Second
           \<le> 2 * (sint (MaxExecutionTime (JobOpts h)) + sint flushIntv)
       \<and> 2 * (sint (MaxExecutionTime (JobOpts h)) + sint flushIntv)
           < (sint (InvisibleSec (cycleOptions ns h now)) + 1) * sint Second
       \<and> sint (MaxExecutionTime (JobOpts h)) + sint flushIntv
           \<le> sint (InvisibleSec (cycleOptions ns h now)) * sint Second
       \<and> (sint (InvisibleSec (cycleOptions ns h now)) * sint Second
             = 2 * (sint (MaxExecutionTime (JobOpts h)) + sint flushIntv)
           \<longleftrightarrow> 1000000000 dvd 2 * sint (MaxExecutionTime (JobOpts h)))"
proof -
  define m where "m = sint (MaxExecutionTime (JobOpts h))"
  define a where "a = 2 * (m + 1000000000)"
  define v where "v = sint (InvisibleSec (cycleOptions ns h now))"
  have pos: "0 < m"
    using assms(1) unfolding m_def by (simp add: Validate_def split: if_splits)
  have v: "v = a div 1000000000"
    unfolding v_def a_def m_def using pos assms(2) unfolding m_def by (rule InvisibleSec_value)
  have b1: "v * 1000000000 \<le> a" and b2: "a < (v + 1) * 1000000000"
    and b3: "(v * 1000000000 = a) = (1000000000 dvd a)"
    unfolding v by (rule floor_seconds_bounds)+
  have b4: "m + 1000000000 \<le> v * 1000000000"
    using b2 pos unfolding a_def by (simp add: distrib_right)
  have "(1000000000::int) dvd 2 * 1000000000"
    by simp
  then have "(1000000000 dvd 2 * m + 2 * 1000000000) = (1000000000 dvd 2 * m)"
    by (rule dvd_add_left_iff)
  moreover have "a = 2 * m + 2 * 1000000000"
    unfolding a_def by simp
  ultimately have "(1000000000 dvd a) = (1000000000 dvd 2 * m)"
    by (simp only:)
  with b3 have b5: "(v * 1000000000 = a) = (1000000000 dvd 2 * m)"
    by simp
  show ?thesis
    unfolding sint_flushIntv sint_Second v_def [symmetric] m_def [symmetric] a_def [symmetric]
    using v b1 b2 b4 b5 by (simp only: simp_thms)
qed

text \<open>With a maximum execution time of 1.7 s the cycle asks for 5 invisible seconds, which cover 2.7 s.\<close>

theorem InvisibleSec_whole_seconds_witness:
  "Validate (testOptions 1700000000) = None
   \<and> sint (InvisibleSec (cycleOptions ''ns''
              ((testHandler (Ok ()))\<lparr>JobOpts := testOptions 1700000000\<rparr>) 0)) = 5
   \<and> (1700000000::int) + 1000000000 \<le> 5 * 1000000000"
  using InvisibleSec_whole_seconds [of "(testHandler (Ok ()))\<lparr>JobOpts := testOptions 1700000000\<rparr>" "''ns''" 0]
  by (simp add: Validate_def testOptions_def flushIntv_def Second_def)

text \<open>
  C1 as stated fails: with a maximum execution time of 1.7 s, which validation accepts,
  the cycle asks for 5 invisible seconds, less than 2 * (1.7 s + 1 s) = 5.4 s.
\<close>

theorem InvisibleSec_counterexample:
  "Validate (testOptions 1700000000) = None
   \<and> sint (InvisibleSec (cycleOptions ''ns''
              ((testHandler (Ok ()))\<lparr>JobOpts := testOptions 1700000000\<rparr>) 0)) * sint Second
       < 2 * (sint (MaxExecutionTime (testOptions 1700000000)) + sint flushIntv)"
  by (simp add: Validate_def testOptions_def cycleOptions_def div64_def flushIntv_def Second_def
        signed_divide_int_def)

text \<open>
  Beyond the bound of the amended claim the doubling wraps: a maximum execution time of
  \<open>2^62 ns\<close> passes validation and yields a negative number of invisible seconds.
\<close>

lemma InvisibleSec_wraps:
  "Validate (testOptions (2 ^ 62)) = None
   \<and> sint (InvisibleSec (cycleOptions ''ns''
              ((testHandler (Ok ()))\<lparr>JobOpts := testOptions (2 ^ 62)\<rparr>) 0)) < 0"
  by (simp add: Validate_def testOptions_def cycleOptions_def div64_def flushIntv_def Second_def
        signed_divide_int_def)

section \<open>Retry and panic isolation\<close>

text \<open>Whatever matches the unrecoverable error also matches do-not-retry.\<close>

lemma unrecoverable_is_doNotRetry:
  "errors_Is err ErrUnrecoverable \<Longrightarrow> errors_Is err ErrDoNotRetry"
  by (induction err) (auto split: if_splits)

text \<open>The loop over the retry counter advances the schedule once per retry.\<close>

lemma backoffLoop_advance:
  "backoffLoop rt i n b d0 s = advance rt (nat (sint n - i)) b d0 s"
proof (induction rt i n b d0 s rule: backoffLoop.induct)
  case (1 rt i n b d0 s)
  show ?case
  proof (cases "i < sint n")
    case True
    then have k: "nat (sint n - i) = Suc (nat (sint n - (i + 1)))"
      by simp
    obtain d b1 s1 where nb: "NextBackOff rt b s = (d, b1, s1)"
      by (cases "NextBackOff rt b s") auto
    have "backoffLoop rt i n b d0 s = backoffLoop rt (i + 1) n b1 d s1"
      using True nb by (subst backoffLoop.simps) simp
    also have "\<dots> = advance rt (nat (sint n - (i + 1))) b1 d s1"
      by (rule "1.IH" [OF True nb [symmetric] refl])
    finally show ?thesis
      unfolding k using nb by simp
  next
    case False
    then show ?thesis
      by (subst backoffLoop.simps) simp
  qed
qed

text \<open>The settings the source writes into the schedule are those of the specification.\<close>

lemma retryBackOff_specSchedule: "retryBackOff = specSchedule"
  by (simp add: retryBackOff_def specSchedule_def Hour_def Second_def)

lemma backoffLoop_delay:
  "backoffLoop rt 0 n (Reset rt retryBackOff) 0 s = delay rt (nat (sint n)) s"
  by (simp only: backoffLoop_advance delay_def retryBackOff_specSchedule diff_zero)

text \<open>The branches of the retry middleware.\<close>

lemma retry_Ok:
  "f job dopt s = (Ok u, job1, s1) \<Longrightarrow> retry rt queue f job dopt s = (Ok (), job1, s1)"
  by (simp add: retry_def)

lemma retry_Panic:
  "f job dopt s = (Panic p, job1, s1) \<Longrightarrow> retry rt queue f job dopt s = (Panic p, job1, s1)"
  by (simp add: retry_def)

lemma retry_unrecoverable:
  "f job dopt s = (Err err, job1, s1) \<Longrightarrow> errors_Is err ErrUnrecoverable \<Longrightarrow>
   retry rt queue f job dopt s = (Ok (), job1, s1)"
  by (simp add: retry_def)

lemma retry_doNotRetry:
  "f job dopt s = (Err err, job1, s1) \<Longrightarrow> \<not> errors_Is err ErrUnrecoverable \<Longrightarrow>
   errors_Is err ErrDoNotRetry \<Longrightarrow>
   retry rt queue f job dopt s = (Err err, job1, s1)"
  by (simp add: retry_def)

lemma retry_retryable:
  assumes "f job dopt s = (Err err, job1, s1)"
      and "\<not> errors_Is err ErrDoNotRetry"
      and "time_Now rt s1 = (now, s2)"
      and "delay rt (nat (sint (Retries job1 + 1))) s2 = (dly, s3)"
  shows "retry rt queue f job dopt s =
           (Err err,
            job1\<lparr>Retries := Retries job1 + 1, LastError := Error err,
                  UpdatedAt := now, EnqueuedAt := now + sint dly\<rparr>,
            snd (Enqueue queue
                   (job1\<lparr>Retries := Retries job1 + 1, LastError := Error err,
                         UpdatedAt := now, EnqueuedAt := now + sint dly\<rparr>)
                   \<lparr>eNamespace = dNamespace dopt, eQueueID = dQueueID dopt\<rparr> s3))"
proof -
  have nu: "\<not> errors_Is err ErrUnrecoverable"
    using assms(2) unrecoverable_is_doNotRetry by blast
  show ?thesis
    using assms nu
    by (simp add: retry_def Let_def backoffLoop_delay split: prod.splits)
qed

text \<open>The branches of panic isolation.\<close>

lemma catchPanic_Panic:
  "f job dopt s = (Panic r, job1, s1) \<Longrightarrow>
   catchPanic rt f job dopt s =
     (Err (ErrorString (''panic: '' @ r @ [CHR 0x0A, CHR 0x0A] @ debug_Stack rt s1)), job1, s1)"
  by (simp add: catchPanic_def)

lemma catchPanic_no_Panic: "fst (catchPanic rt f job dopt s) \<noteq> Panic p"
  by (simp add: catchPanic_def split: prod.splits result.splits)

lemma retry_Panic_only_from_inner:
  "fst (retry rt queue f job dopt s) = Panic p \<Longrightarrow> fst (f job dopt s) = Panic p"
  by (auto simp: retry_def Let_def split: prod.splits result.splits if_splits)

lemma handlePipeline_no_Panic: "fst (handlePipeline rt queue ctx h job dopt s) \<noteq> Panic p"
proof
  assume "fst (handlePipeline rt queue ctx h job dopt s) = Panic p"
  then have "fst (catchPanic rt (userHandle ctx h) job dopt s) = Panic p"
    unfolding handlePipeline_def by (rule retry_Panic_only_from_inner)
  then show False
    by (simp add: catchPanic_no_Panic)
qed

text \<open>A cycle whose dequeue produced a job is decided by the handle pipeline.\<close>

lemma cycle_handled:
  assumes "time_Now rt (world st) = (now, s0)"
      and "dequeuePipeline rt queue h (cycleOptions ns h now) (st\<lparr>world := s0\<rparr>) = (Ok job, st1)"
      and "handlePipeline rt queue ctx h job (cycleOptions ns h now) (world st1) = (r, job1, s2)"
  shows "cycle rt queue ns errFunc ctx h st =
           (case r of
              Panic p \<Rightarrow> (Panic p, st1\<lparr>world := s2\<rparr>)
            | Err err \<Rightarrow> (Err err, st1\<lparr>world := s2\<rparr>)
            | Ok u \<Rightarrow>
                if 1000 \<le> length (ackJobs st1 @ [job1])
                then (case flush queue ns h (st1\<lparr>ackJobs := ackJobs st1 @ [job1], world := s2\<rparr>) of
                        (Some err, st4) \<Rightarrow> (Err err, st4\<lparr>world := errFunc err (world st4)\<rparr>)
                      | (None, st4) \<Rightarrow> (Ok (), st4))
                else (Ok (), st1\<lparr>ackJobs := ackJobs st1 @ [job1], world := s2\<rparr>))"
  using assms by (simp add: cycle_def Let_def split: result.splits)

lemma catchPanic_Err:
  "f job dopt s = (Err err, job1, s1) \<Longrightarrow> catchPanic rt f job dopt s = (Err err, job1, s1)"
  by (simp add: catchPanic_def)

lemma catchPanic_Ok:
  "f job dopt s = (Ok u, job1, s1) \<Longrightarrow> catchPanic rt f job dopt s = (Ok (), job1, s1)"
  by (simp add: catchPanic_def)

text \<open>
  C3. When the inner handler fails with an error that matches unrecoverable, the retry
  middleware returns success, leaves the job and the state outside as the handler left
  them (no enqueue), and the cycle appends the job to the ack buffer (flushing it when the
  buffer reaches 1000). When the error matches do-not-retry but not unrecoverable, the
  middleware returns the same error and the state outside is again the handler's (no
  enqueue), and the cycle leaves the ack buffer alone. Every error that matches
  unrecoverable also matches do-not-retry, the unrecoverable error itself included, and
  not the other way round.
\<close>

theorem retry_unrecoverable_and_doNotRetry:
  "(f job dopt s = (Err err, job1, s1) \<and> errors_Is err ErrUnrecoverable \<longrightarrow>
      retry rt queue f job dopt s = (Ok (), job1, s1))
   \<and> (f job dopt s = (Err err, job1, s1) \<and> errors_Is err ErrDoNotRetry
        \<and> \<not> errors_Is err ErrUnrecoverable \<longrightarrow>
      retry rt queue f job dopt s = (Err err, job1, s1))
   \<and> (errors_Is err ErrUnrecoverable \<longrightarrow> errors_Is err ErrDoNotRetry)
   \<and> errors_Is ErrUnrecoverable ErrDoNotRetry
   \<and> \<not> errors_Is ErrDoNotRetry ErrUnrecoverable
   \<and> (time_Now rt (world st) = (now, s0)
        \<and> dequeuePipeline rt queue h (cycleOptions ns h now) (st\<lparr>world := s0\<rparr>) = (Ok j, st1)
        \<and> userHandle ctx h j (cycleOptions ns h now) (world st1) = (Err err, j1, s2)
        \<and> errors_Is err ErrUnrecoverable \<longrightarrow>
      cycle rt queue ns errFunc ctx h st =
        (if 1000 \<le> length (ackJobs st1 @ [j1])
         then (case flush queue ns h (st1\<lparr>ackJobs := ackJobs st1 @ [j1], world := s2\<rparr>) of
                 (Some e, st4) \<Rightarrow> (Err e, st4\<lparr>world := errFunc e (world st4)\<rparr>)
               | (None, st4) \<Rightarrow> (Ok (), st4))
         else (Ok (), st1\<lparr>ackJobs := ackJobs st1 @ [j1], world := s2\<rparr>)))
   \<and> (time_Now rt (world st) = (now, s0)
        \<and> dequeuePipeline rt queue h (cycleOptions ns h now) (st\<lparr>world := s0\<rparr>) = (Ok j, st1)
        \<and> userHandle ctx h j (cycleOptions ns h now) (world st1) = (Err err, j1, s2)
        \<and> errors_Is err ErrDoNotRetry \<and> \<not> errors_Is err ErrUnrecoverable \<longrightarrow>
      cycle rt queue ns errFunc ctx h st = (Err err, st1\<lparr>world := s2\<rparr>))"
proof -
  have a: "retry rt queue f job dopt s = (Ok (), job1, s1)"
    if "f job dopt s = (Err err, job1, s1)" "errors_Is err ErrUnrecoverable"
    using that by (rule retry_unrecoverable)
  have b: "retry rt queue f job dopt s = (Err err, job1, s1)"
    if "f job dopt s = (Err err, job1, s1)" "errors_Is err ErrDoNotRetry"
       "\<not> errors_Is err ErrUnrecoverable"
    using that(1,3,2) by (rule retry_doNotRetry)
  have c: "errors_Is err ErrDoNotRetry" if "errors_Is err ErrUnrecoverable"
    using that by (rule unrecoverable_is_doNotRetry)
  have d: "cycle rt queue ns errFunc ctx h st =
        (if 1000 \<le> length (ackJobs st1 @ [j1])
         then (case flush queue ns h (st1\<lparr>ackJobs := ackJobs st1 @ [j1], world := s2\<rparr>) of
                 (Some e, st4) \<Rightarrow> (Err e, st4\<lparr>world := errFunc e (world st4)\<rparr>)
               | (None, st4) \<Rightarrow> (Ok (), st4))
         else (Ok (), st1\<lparr>ackJobs := ackJobs st1 @ [j1], world := s2\<rparr>))"
    if t: "time_Now rt (world st) = (now, s0)"
      and q: "dequeuePipeline rt queue h (cycleOptions ns h now) (st\<lparr>world := s0\<rparr>) = (Ok j, st1)"
      and u: "userHandle ctx h j (cycleOptions ns h now) (world st1) = (Err err, j1, s2)"
      and e: "errors_Is err ErrUnrecoverable"
  proof -
    have cp: "catchPanic rt (userHandle ctx h) j (cycleOptions ns h now) (world st1) = (Err err, j1, s2)"
      using u by (rule catchPanic_Err)
    have "handlePipeline rt queue ctx h j (cycleOptions ns h now) (world st1) = (Ok (), j1, s2)"
      unfolding handlePipeline_def
      using cp e by (rule retry_unrecoverable [where f = "catchPanic rt (userHandle ctx h)"])
    from cycle_handled [OF t q this] show ?thesis
      by simp
  qed
  have e: "cycle rt queue ns errFunc ctx h st = (Err err, st1\<lparr>world := s2\<rparr>)"
    if t: "time_Now rt (world st) = (now, s0)"
      and q: "dequeuePipeline rt queue h (cycleOptions ns h now) (st\<lparr>world := s0\<rparr>) = (Ok j, st1)"
      and u: "userHandle ctx h j (cycleOptions ns h now) (world st1) = (Err err, j1, s2)"
      and e1: "errors_Is err ErrDoNotRetry" and e2: "\<not> errors_Is err ErrUnrecoverable"
  proof -
    have cp: "catchPanic rt (userHandle ctx h) j (cycleOptions ns h now) (world st1) = (Err err, j1, s2)"
      using u by (rule catchPanic_Err)
    have "handlePipeline rt queue ctx h j (cycleOptions ns h now) (world st1) = (Err err, j1, s2)"
      unfolding handlePipeline_def
      using cp e2 e1 by (rule retry_doNotRetry [where f = "catchPanic rt (userHandle ctx h)"])
    from cycle_handled [OF t q this] show ?thesis
      by simp
  qed
  show ?thesis
    using a b c d e by simp
qed

text \<open>One cycle on the example bulk backend with a handler that fails with the unrecoverable error, and with one that wraps do-not-retry: the first job is put into the ack buffer, the second is neither acked nor enqueued.\<close>

theorem retry_unrecoverable_and_doNotRetry_witness:
  "cycle testRuntime (testBulkQueue [testJob ''a'']) ''ns'' (Println testRuntime) Background
     (testHandler (Err ErrUnrecoverable)) (testLoop [] [])
     = (Ok (),
        \<lparr>jobs = [], ackJobs = [testJob ''a''],
         world = [BulkDequeued 15 \<lparr>dNamespace = ''ns'', dQueueID = ''q'', At = 1000,
                                   InvisibleSec = 60\<rparr>]\<rparr>)
   \<and> cycle testRuntime (testBulkQueue [testJob ''a'']) ''ns'' (Println testRuntime) Background
     (testHandler (Err (WrapError ''rescheduled'' ErrDoNotRetry))) (testLoop [] [])
     = (Err (WrapError ''rescheduled'' ErrDoNotRetry),
        \<lparr>jobs = [], ackJobs = [],
         world = [BulkDequeued 15 \<lparr>dNamespace = ''ns'', dQueueID = ''q'', At = 1000,
                                   InvisibleSec = 60\<rparr>]\<rparr>)"
  using
    retry_unrecoverable_and_doNotRetry [where rt = testRuntime
      and queue = "testBulkQueue [testJob ''a'']" and ns = "''ns''"
      and errFunc = "Println testRuntime" and ctx = Background
      and h = "testHandler (Err ErrUnrecoverable)" and st = "testLoop [] []"
      and now = 1000 and ?s0.0 = "[]" and j = "testJob ''a''" and ?j1.0 = "testJob ''a''"
      and ?st1.0 = "\<lparr>jobs = [], ackJobs = [],
         world = [BulkDequeued 15 \<lparr>dNamespace = ''ns'', dQueueID = ''q'', At = 1000,
                                   InvisibleSec = 60\<rparr>]\<rparr>"
      and ?s2.0 = "[BulkDequeued 15 \<lparr>dNamespace = ''ns'', dQueueID = ''q'', At = 1000,
                                   InvisibleSec = 60\<rparr>]"
      and err = ErrUnrecoverable
      and f = "\<lambda>job dopt s. (Err ErrUnrecoverable, job, s)" and job = "testJob ''a''"
      and ?job1.0 = "testJob ''a''" and s = "[]" and ?s1.0 = "[]"]
    retry_unrecoverable_and_doNotRetry [where rt = testRuntime
      and queue = "testBulkQueue [testJob ''a'']" and ns = "''ns''"
      and errFunc = "Println testRuntime" and ctx = Background
      and h = "testHandler (Err (WrapError ''rescheduled'' ErrDoNotRetry))" and st = "testLoop [] []"
      and now = 1000 and ?s0.0 = "[]" and j = "testJob ''a''" and ?j1.0 = "testJob ''a''"
      and ?st1.0 = "\<lparr>jobs = [], ackJobs = [],
         world = [BulkDequeued 15 \<lparr>dNamespace = ''ns'', dQueueID = ''q'', At = 1000,
                                   InvisibleSec = 60\<rparr>]\<rparr>"
      and ?s2.0 = "[BulkDequeued 15 \<lparr>dNamespace = ''ns'', dQueueID = ''q'', At = 1000,
                                   InvisibleSec = 60\<rparr>]"
      and err = "WrapError ''rescheduled'' ErrDoNotRetry"
      and f = "\<lambda>job dopt s. (Err (WrapError ''rescheduled'' ErrDoNotRetry), job, s)"
      and job = "testJob ''a''"
      and ?job1.0 = "testJob ''a''" and s = "[]" and ?s1.0 = "[]"]
  by (simp add: testRuntime_def testBulkQueue_def testQueue_def testHandler_def testOptions_def
        testLoop_def testJob_def dequeuePipeline_def idleWait_def getDequeueFunc_def serveFirst_def
        userHandle_def cycleOptions_def div64_def flushIntv_def Second_def signed_divide_int_def)

text \<open>Incrementing a retry counter below the largest \<open>int64\<close> does not wrap.\<close>

lemma sint_succ_no_wrap:
  fixes a :: "64 word"
  assumes "sint a < 2 ^ 63 - 1"
  shows "sint (a + 1) = sint a + 1"
proof -
  have "- (2 ^ 63) \<le> sint a"
    using sint_ge [of a] by simp
  then have "sint (a + 1) = sint a + sint (1 :: 64 word)"
    using assms by (intro sint_add_no_wrap) simp_all
  then show ?thesis by simp
qed

text \<open>
  C4. When the inner handler fails with an error that does not match do-not-retry (hence
  not unrecoverable either), the retry middleware reads the clock, adds one to the retry
  counter (in \<open>int64\<close>; the mathematical successor below the largest value), sets the last
  error to the error's message and updated-at to now, sets the enqueue time to now plus the
  delay of the specification (a fresh schedule with initial interval 2 s, multiplier 1.6,
  randomisation factor 0.2 and max interval 24 h, advanced as many times as the new retry
  counter, the last value used), and hands the
  job to the backend's enqueue under the namespace and queue id of the dequeue options.
  It returns the same error whatever the enqueue replied, and the cycle does not touch
  the ack buffer.
\<close>

theorem retry_reenqueues:
  assumes "f job dopt s = (Err err, job1, s1)"
      and "\<not> errors_Is err ErrDoNotRetry"
      and "time_Now rt s1 = (now, s2)"
      and "delay rt (nat (sint (Retries job1 + 1))) s2 = (dly, s3)"
      and "Enqueue queue
             (job1\<lparr>Retries := Retries job1 + 1, LastError := Error err,
                   UpdatedAt := now, EnqueuedAt := now + sint dly\<rparr>)
             \<lparr>eNamespace = dNamespace dopt, eQueueID = dQueueID dopt\<rparr> s3 = (reply, s4)"
  shows "retry rt queue f job dopt s =
           (Err err,
            job1\<lparr>Retries := Retries job1 + 1, LastError := Error err,
                  UpdatedAt := now, EnqueuedAt := now + sint dly\<rparr>,
            s4)
       \<and> \<not> errors_Is err ErrUnrecoverable
       \<and> (sint (Retries job1) < 2 ^ 63 - 1 \<longrightarrow>
            sint (Retries job1 + 1) = sint (Retries job1) + 1)
       \<and> (time_Now rt (world st) = (t0, s0)
            \<and> dopt = cycleOptions ns h t0
            \<and> dequeuePipeline rt queue h dopt (st\<lparr>world := s0\<rparr>) = (Ok job, st1)
            \<and> world st1 = s
            \<and> f = userHandle ctx h \<longrightarrow>
            cycle rt queue ns errFunc ctx h st = (Err err, st1\<lparr>world := s4\<rparr>))"
proof -
  let ?job3 = "job1\<lparr>Retries := Retries job1 + 1, LastError := Error err,
                     UpdatedAt := now, EnqueuedAt := now + sint dly\<rparr>"
  have r: "retry rt queue g job dopt s = (Err err, ?job3, s4)"
    if "g job dopt s = (Err err, job1, s1)" for g
    using retry_retryable [where f = g and queue = queue, OF that assms(2,3,4)] assms(5) by simp
  have u: "\<not> errors_Is err ErrUnrecoverable"
    using assms(2) unrecoverable_is_doNotRetry by blast
  have c: "cycle rt queue ns errFunc ctx h st = (Err err, st1\<lparr>world := s4\<rparr>)"
    if t: "time_Now rt (world st) = (t0, s0)" and d: "dopt = cycleOptions ns h t0"
      and q: "dequeuePipeline rt queue h dopt (st\<lparr>world := s0\<rparr>) = (Ok job, st1)"
      and w: "world st1 = s" and f: "f = userHandle ctx h"
  proof -
    have "catchPanic rt (userHandle ctx h) job dopt s = (Err err, job1, s1)"
      using assms(1) unfolding f by (rule catchPanic_Err)
    then have "handlePipeline rt queue ctx h job dopt s = (Err err, ?job3, s4)"
      unfolding handlePipeline_def by (rule r [where g = "catchPanic rt (userHandle ctx h)"])
    then have "handlePipeline rt queue ctx h job (cycleOptions ns h t0) (world st1)
                 = (Err err, ?job3, s4)"
      unfolding d w .
    from cycle_handled [OF t q [unfolded d] this] show ?thesis
      by simp
  qed
  show ?thesis
  proof (intro conjI impI)
    show "retry rt queue f job dopt s = (Err err, ?job3, s4)"
      by (rule r [where g = f, OF assms(1)])
    show "\<not> errors_Is err ErrUnrecoverable"
      by (rule u)
    show "sint (Retries job1 + 1) = sint (Retries job1) + 1"
      if "sint (Retries job1) < 2 ^ 63 - 1"
      using that by (rule sint_succ_no_wrap)
    show "cycle rt queue ns errFunc ctx h st = (Err err, st1\<lparr>world := s4\<rparr>)"
      if "time_Now rt (world st) = (t0, s0)
            \<and> dopt = cycleOptions ns h t0
            \<and> dequeuePipeline rt queue h dopt (st\<lparr>world := s0\<rparr>) = (Ok job, st1)
            \<and> world st1 = s
            \<and> f = userHandle ctx h"
      using that c by blast
  qed
qed

text \<open>
  C6. When the inner handler panics, panic isolation returns an ordinary error whose
  message is \<open>panic: \<close>, the panic value, an empty line and the stack dump; it never
  panics itself. Such an error matches neither do-not-retry nor unrecoverable, so the
  handle pipeline (retry around panic isolation around the user's handler) re-enqueues
  the job with the retry counter incremented, and the pipeline never panics.
\<close>

theorem catchPanic_isolates:
  "(f job dopt s = (Panic r, job1, s1) \<longrightarrow>
      catchPanic rt f job dopt s =
        (Err (ErrorString (''panic: '' @ r @ [CHR 0x0A, CHR 0x0A] @ debug_Stack rt s1)), job1, s1)
      \<and> sublist r (''panic: '' @ r @ [CHR 0x0A, CHR 0x0A] @ debug_Stack rt s1)
      \<and> sublist (debug_Stack rt s1) (''panic: '' @ r @ [CHR 0x0A, CHR 0x0A] @ debug_Stack rt s1))
   \<and> fst (catchPanic rt f job dopt s) \<noteq> Panic p
   \<and> \<not> errors_Is (ErrorString m) ErrDoNotRetry
   \<and> \<not> errors_Is (ErrorString m) ErrUnrecoverable
   \<and> (userHandle ctx h job dopt s = (Panic r, job1, s1)
        \<and> time_Now rt s1 = (now, s2)
        \<and> delay rt (nat (sint (Retries job1 + 1))) s2 = (dly, s3) \<longrightarrow>
      handlePipeline rt queue ctx h job dopt s =
        (Err (ErrorString (''panic: '' @ r @ [CHR 0x0A, CHR 0x0A] @ debug_Stack rt s1)),
         job1\<lparr>Retries := Retries job1 + 1,
               LastError := ''panic: '' @ r @ [CHR 0x0A, CHR 0x0A] @ debug_Stack rt s1,
               UpdatedAt := now, EnqueuedAt := now + sint dly\<rparr>,
         snd (Enqueue queue
                (job1\<lparr>Retries := Retries job1 + 1,
                      LastError := ''panic: '' @ r @ [CHR 0x0A, CHR 0x0A] @ debug_Stack rt s1,
                      UpdatedAt := now, EnqueuedAt := now + sint dly\<rparr>)
                \<lparr>eNamespace = dNamespace dopt, eQueueID = dQueueID dopt\<rparr> s3)))
   \<and> fst (handlePipeline rt queue ctx h job dopt s) \<noteq> Panic p"
proof -
  let ?msg = "''panic: '' @ r @ [CHR 0x0A, CHR 0x0A] @ debug_Stack rt s1"
  have a: "catchPanic rt f job dopt s = (Err (ErrorString ?msg), job1, s1)"
    if "f job dopt s = (Panic r, job1, s1)"
    using that by (rule catchPanic_Panic)
  have b: "sublist r ?msg"
    by (rule sublist_appendI)
  have "sublist (debug_Stack rt s1) ((''panic: '' @ r @ [CHR 0x0A, CHR 0x0A]) @ debug_Stack rt s1 @ [])"
    by (rule sublist_appendI)
  then have c: "sublist (debug_Stack rt s1) ?msg"
    by simp
  have d: "handlePipeline rt queue ctx h job dopt s =
        (Err (ErrorString ?msg),
         job1\<lparr>Retries := Retries job1 + 1, LastError := ?msg,
               UpdatedAt := now, EnqueuedAt := now + sint dly\<rparr>,
         snd (Enqueue queue
                (job1\<lparr>Retries := Retries job1 + 1, LastError := ?msg,
                      UpdatedAt := now, EnqueuedAt := now + sint dly\<rparr>)
                \<lparr>eNamespace = dNamespace dopt, eQueueID = dQueueID dopt\<rparr> s3))"
    if u: "userHandle ctx h job dopt s = (Panic r, job1, s1)"
      and t: "time_Now rt s1 = (now, s2)"
      and n: "delay rt (nat (sint (Retries job1 + 1))) s2 = (dly, s3)"
  proof -
    have cp: "catchPanic rt (userHandle ctx h) job dopt s = (Err (ErrorString ?msg), job1, s1)"
      using u by (rule catchPanic_Panic)
    have nr: "\<not> errors_Is (ErrorString ?msg) ErrDoNotRetry"
      by simp
    show ?thesis
      unfolding handlePipeline_def
      using retry_retryable [where f = "catchPanic rt (userHandle ctx h)" and queue = queue,
          OF cp nr t n]
      by simp
  qed
  show ?thesis
    using a b c d catchPanic_no_Panic [of rt f job dopt s p]
      handlePipeline_no_Panic [of rt queue ctx h job dopt s p]
    by simp
qed

text \<open>Unfolding the example backend.\<close>

lemmas test_simps =
  testRuntime_def testBulkQueue_def testQueue_def testHandler_def testOptions_def
  testLoop_def testJob_def dequeuePipeline_def idleWait_def getDequeueFunc_def serveFirst_def
  userHandle_def cycleOptions_def div64_def flushIntv_def Second_def signed_divide_int_def
  delay_def retryBackOff_def specSchedule_def Hour_def

text \<open>One cycle with a handler that fails with an ordinary error: the job is enqueued with one retry, two seconds ahead, and the refusal of the enqueue changes nothing.\<close>

theorem retry_reenqueues_witness:
  "cycle testRuntime (testBulkQueue [testJob ''a'']) ''ns'' (Println testRuntime) Background
     (testHandler (Err (ErrorString ''boom''))) (testLoop [] [])
     = (Err (ErrorString ''boom''),
        \<lparr>jobs = [], ackJobs = [],
         world = [BulkDequeued 15 \<lparr>dNamespace = ''ns'', dQueueID = ''q'', At = 1000,
                                   InvisibleSec = 60\<rparr>,
                  Enqueued \<lparr>ID = ''a'', Retries = 1, LastError = ''boom'',
                             EnqueuedAt = 2000001000, UpdatedAt = 1000, Payload = []\<rparr>
                           \<lparr>eNamespace = ''ns'', eQueueID = ''q''\<rparr>]\<rparr>)"
  using
    retry_reenqueues [where rt = testRuntime
      and queue = "testBulkQueue [testJob ''a'']" and ns = "''ns''"
      and errFunc = "Println testRuntime" and ctx = Background
      and h = "testHandler (Err (ErrorString ''boom''))" and st = "testLoop [] []"
      and f = "userHandle Background (testHandler (Err (ErrorString ''boom'')))"
      and job = "testJob ''a''" and ?job1.0 = "testJob ''a''"
      and dopt = "cycleOptions ''ns'' (testHandler (Err (ErrorString ''boom''))) 1000"
      and err = "ErrorString ''boom''"
      and s = "[BulkDequeued 15 \<lparr>dNamespace = ''ns'', dQueueID = ''q'', At = 1000,
                                  InvisibleSec = 60\<rparr>]"
      and ?s1.0 = "[BulkDequeued 15 \<lparr>dNamespace = ''ns'', dQueueID = ''q'', At = 1000,
                                  InvisibleSec = 60\<rparr>]"
      and now = 1000
      and ?s2.0 = "[BulkDequeued 15 \<lparr>dNamespace = ''ns'', dQueueID = ''q'', At = 1000,
                                  InvisibleSec = 60\<rparr>]"
      and dly = 2000000000
      and ?s3.0 = "[BulkDequeued 15 \<lparr>dNamespace = ''ns'', dQueueID = ''q'', At = 1000,
                                  InvisibleSec = 60\<rparr>]"
      and reply = "Some ErrUnsupported"
      and ?s4.0 = "[BulkDequeued 15 \<lparr>dNamespace = ''ns'', dQueueID = ''q'', At = 1000,
                                   InvisibleSec = 60\<rparr>,
                  Enqueued \<lparr>ID = ''a'', Retries = 1, LastError = ''boom'',
                             EnqueuedAt = 2000001000, UpdatedAt = 1000, Payload = []\<rparr>
                           \<lparr>eNamespace = ''ns'', eQueueID = ''q''\<rparr>]"
      and ?t0.0 = 1000 and ?s0.0 = "[]"
      and ?st1.0 = "\<lparr>jobs = [], ackJobs = [],
         world = [BulkDequeued 15 \<lparr>dNamespace = ''ns'', dQueueID = ''q'', At = 1000,
                                   InvisibleSec = 60\<rparr>]\<rparr>"]
  by (simp add: test_simps)

text \<open>The handle pipeline around a handler that panics with \<open>oops\<close>.\<close>

theorem catchPanic_isolates_witness:
  "handlePipeline testRuntime testQueue Background (testHandler (Panic ''oops''))
     (testJob ''a'') (cycleOptions ''ns'' (testHandler (Panic ''oops'')) 1000) []
     = (Err (ErrorString (''panic: oops'' @ [CHR 0x0A, CHR 0x0A] @ ''goroutine 1 [running]:'')),
        \<lparr>ID = ''a'', Retries = 1,
         LastError = ''panic: oops'' @ [CHR 0x0A, CHR 0x0A] @ ''goroutine 1 [running]:'',
         EnqueuedAt = 2000001000, UpdatedAt = 1000, Payload = []\<rparr>,
        [Enqueued \<lparr>ID = ''a'', Retries = 1,
                    LastError = ''panic: oops'' @ [CHR 0x0A, CHR 0x0A] @ ''goroutine 1 [running]:'',
                    EnqueuedAt = 2000001000, UpdatedAt = 1000, Payload = []\<rparr>
                  \<lparr>eNamespace = ''ns'', eQueueID = ''q''\<rparr>])"
  using
    catchPanic_isolates [where rt = testRuntime and queue = testQueue and ctx = Background
      and h = "testHandler (Panic ''oops'')"
      and f = "userHandle Background (testHandler (Panic ''oops''))"
      and job = "testJob ''a''" and ?job1.0 = "testJob ''a''"
      and dopt = "cycleOptions ''ns'' (testHandler (Panic ''oops'')) 1000"
      and s = "[]" and ?s1.0 = "[]" and r = "''oops''"
      and now = 1000 and ?s2.0 = "[]" and dly = 2000000000 and ?s3.0 = "[]"]
  by (simp add: test_simps)

section \<open>The prefetching dequeue adapter\<close>

lemma sint_mult_no_wrap:
  fixes a b :: "64 word"
  assumes "- (2 ^ 63) \<le> sint a * sint b" "sint a * sint b < 2 ^ 63"
  shows "sint (a * b) = sint a * sint b"
  by (simp only: sint_word_mult) (rule signed_take_bit_int_eq_self; use assms in simp)

text \<open>For a positive visibility the batch size is \<open>max 1 (60 div invisibleSec)\<close>.\<close>

lemma bulk_count:
  fixes inv :: int64
  assumes "0 < sint inv"
  shows "sint (if sint (div64 60 inv) \<le> 0 then 1 else div64 60 inv) = max 1 (60 div sint inv)"
proof -
  define i where "i = sint inv"
  define q where "q = 60 div i"
  have i: "0 < i" using assms by (simp add: i_def)
  have q0: "0 \<le> q"
    unfolding q_def using i by (intro pos_imp_zdiv_nonneg_iff [THEN iffD2]) simp_all
  have "q \<le> 60"
    unfolding q_def by (rule int_div_le_self) simp
  then have q1: "q < 2 ^ 63" by simp
  have "sint (60 :: 64 word) sdiv i = q"
    unfolding q_def using i by (simp add: sdiv_nonneg)
  then have d: "div64 60 inv = word_of_int q"
    by (simp add: div64_def i_def)
  have s: "sint (word_of_int q :: 64 word) = q"
    using q0 q1 by (intro sint_in_range) simp_all
  show ?thesis
    unfolding d s i_def [symmetric] q_def [symmetric] using q0 s by (simp add: max_def)
qed

lemma bulk_count_word:
  fixes inv :: int64
  assumes "0 < sint inv"
  shows "(if sint (div64 60 inv) \<le> 0 then 1 else div64 60 inv)
           = word_of_int (max 1 (60 div sint inv))"
proof -
  have "word_of_int (sint (if sint (div64 60 inv) \<le> 0 then 1 else div64 60 inv))
          = (word_of_int (max 1 (60 div sint inv)) :: 64 word)"
    by (simp only: bulk_count [OF assms])
  then show ?thesis
    by (simp only: of_int_sint scast_id)
qed

text \<open>The scaled visibility stays at most \<open>max 60 invisibleSec\<close>, so it does not wrap.\<close>

lemma bulk_invisible:
  fixes inv :: int64
  assumes "0 < sint inv"
  shows "sint (inv * word_of_int (max 1 (60 div sint inv)))
           = sint inv * max 1 (60 div sint inv)"
    and "sint (word_of_int (max 1 (60 div sint inv)) :: 64 word) = max 1 (60 div sint inv)"
    and "max 1 (60 div sint inv) \<le> 60"
proof -
  define i where "i = sint inv"
  define q where "q = 60 div i"
  define r where "r = 60 mod i"
  define c where "c = max 1 q"
  have i: "0 < i" "i < 2 ^ 63"
    using assms sint_lt [of inv] by (simp_all add: i_def)
  have e: "q * i + r = 60"
    unfolding q_def r_def by (rule div_mult_mod_eq)
  have r: "0 \<le> r"
    unfolding r_def using i by simp
  have le: "q * i \<le> 60"
    using e r by linarith
  have qle: "q \<le> 60"
    unfolding q_def by (rule int_div_le_self) simp
  have c: "1 \<le> c" "c \<le> 60"
    unfolding c_def using qle by simp_all
  have sc: "sint (word_of_int c :: 64 word) = c"
    using c by (intro sint_in_range) simp_all
  have b: "i * c < 2 ^ 63" "0 \<le> i * c"
    unfolding c_def using i le by (auto simp: max_def mult.commute)
  have "sint (inv * word_of_int c) = sint inv * sint (word_of_int c :: 64 word)"
    by (rule sint_mult_no_wrap) (use b in \<open>simp_all add: sc i_def [symmetric]\<close>)
  then show "sint (inv * word_of_int (max 1 (60 div sint inv)))
           = sint inv * max 1 (60 div sint inv)"
    unfolding sc unfolding c_def q_def i_def .
  show "sint (word_of_int (max 1 (60 div sint inv)) :: 64 word) = max 1 (60 div sint inv)"
    using sc unfolding c_def q_def i_def .
  show "max 1 (60 div sint inv) \<le> 60"
    using c(2) unfolding c_def q_def i_def .
qed

text \<open>A non-empty buffer is served from its head without a call to the backend.\<close>

lemma getDequeueFunc_buffered:
  "Bulk queue = Some bd \<Longrightarrow> jobs st = j # js \<Longrightarrow>
   getDequeueFunc queue dopt st = (Ok j, st\<lparr>jobs := js\<rparr>)"
  by (simp add: getDequeueFunc_def serveFirst_def)

lemma dequeueMany_buffered:
  "Bulk queue = Some bd \<Longrightarrow> jobs st = js \<Longrightarrow> length dopts = length js \<Longrightarrow>
   dequeueMany (getDequeueFunc queue) dopts st = (map Ok js, st\<lparr>jobs := []\<rparr>)"
proof (induction dopts arbitrary: st js)
  case Nil
  then show ?case by simp
next
  case (Cons dopt dopts)
  then obtain j js' where js: "js = j # js'"
    by (cases js) auto
  have step: "getDequeueFunc queue dopt st = (Ok j, st\<lparr>jobs := js'\<rparr>)"
    using Cons.prems(1,2) js by (simp add: getDequeueFunc_buffered)
  have "dequeueMany (getDequeueFunc queue) dopts (st\<lparr>jobs := js'\<rparr>)
          = (map Ok js', st\<lparr>jobs := js'\<rparr>\<lparr>jobs := []\<rparr>)"
    using Cons.prems js by (intro Cons.IH) simp_all
  then show ?case
    using step js by simp
qed

text \<open>An empty buffer is refilled by one bulk call.\<close>

lemma getDequeueFunc_refill:
  assumes "Bulk queue = Some bd" and "0 < sint (InvisibleSec dopt)" and "jobs st = []"
  shows "getDequeueFunc queue dopt st =
           (case BulkDequeue bd (word_of_int (max 1 (60 div sint (InvisibleSec dopt))))
                   (dopt\<lparr>InvisibleSec :=
                      InvisibleSec dopt * word_of_int (max 1 (60 div sint (InvisibleSec dopt)))\<rparr>)
                   (world st) of
              ((js, Some e), s1) \<Rightarrow> (Err e, st\<lparr>jobs := js, world := s1\<rparr>)
            | ((js, None), s1) \<Rightarrow> serveFirst (st\<lparr>jobs := js, world := s1\<rparr>))"
proof -
  have nz: "InvisibleSec dopt \<noteq> 0"
    using assms(2) by auto
  have "getDequeueFunc queue dopt st =
          (let count = (if sint (div64 60 (InvisibleSec dopt)) \<le> 0 then 1
                        else div64 60 (InvisibleSec dopt))
           in case BulkDequeue bd count (dopt\<lparr>InvisibleSec := InvisibleSec dopt * count\<rparr>)
                     (world st) of
                ((js, Some e), s1) \<Rightarrow> (Err e, st\<lparr>jobs := js, world := s1\<rparr>)
              | ((js, None), s1) \<Rightarrow> serveFirst (st\<lparr>jobs := js, world := s1\<rparr>))"
    using assms(1,3) nz
    by (simp add: getDequeueFunc_def Let_def split: prod.splits option.splits)
  then show ?thesis
    unfolding bulk_count_word [OF assms(2)] Let_def .
qed

text \<open>
  C7. For a backend with bulk dequeue, options with a positive number of invisible
  seconds and an empty prefetch buffer, the adapter makes one \<open>BulkDequeue\<close> call asking for
  \<open>max 1 (60 div invisibleSec)\<close> jobs (a count between 1 and 60) under options whose
  invisible seconds are the product of the two (which does not wrap). An error of that call
  is returned. When the call returns a non-empty batch without error, this and the
  following calls of the adapter, as many as the batch is long, return the jobs of the batch
  in order and leave the buffer empty, and the state outside is the one the single bulk
  call left.
\<close>

theorem getDequeueFunc_prefetch:
  assumes "Bulk queue = Some bd" and "0 < sint (InvisibleSec dopt)" and "jobs st = []"
  shows "sint (word_of_int (max 1 (60 div sint (InvisibleSec dopt))) :: int64)
           = max 1 (60 div sint (InvisibleSec dopt))
       \<and> sint (InvisibleSec dopt * word_of_int (max 1 (60 div sint (InvisibleSec dopt))))
           = sint (InvisibleSec dopt) * max 1 (60 div sint (InvisibleSec dopt))
       \<and> getDequeueFunc queue dopt st =
           (case BulkDequeue bd (word_of_int (max 1 (60 div sint (InvisibleSec dopt))))
                   (dopt\<lparr>InvisibleSec :=
                      InvisibleSec dopt * word_of_int (max 1 (60 div sint (InvisibleSec dopt)))\<rparr>)
                   (world st) of
              ((ks, Some e), s1) \<Rightarrow> (Err e, st\<lparr>jobs := ks, world := s1\<rparr>)
            | ((ks, None), s1) \<Rightarrow> serveFirst (st\<lparr>jobs := ks, world := s1\<rparr>))
       \<and> (BulkDequeue bd (word_of_int (max 1 (60 div sint (InvisibleSec dopt))))
              (dopt\<lparr>InvisibleSec :=
                 InvisibleSec dopt * word_of_int (max 1 (60 div sint (InvisibleSec dopt)))\<rparr>)
              (world st) = ((js, None), s2)
            \<and> js \<noteq> [] \<and> length dopts + 1 = length js \<longrightarrow>
           dequeueMany (getDequeueFunc queue) (dopt # dopts) st
             = (map Ok js, st\<lparr>jobs := [], world := s2\<rparr>))"
proof (intro conjI impI)
  show "sint (word_of_int (max 1 (60 div sint (InvisibleSec dopt))) :: int64)
           = max 1 (60 div sint (InvisibleSec dopt))"
    by (rule bulk_invisible(2) [OF assms(2)])
  show "sint (InvisibleSec dopt * word_of_int (max 1 (60 div sint (InvisibleSec dopt))))
           = sint (InvisibleSec dopt) * max 1 (60 div sint (InvisibleSec dopt))"
    by (rule bulk_invisible(1) [OF assms(2)])
  show "getDequeueFunc queue dopt st =
           (case BulkDequeue bd (word_of_int (max 1 (60 div sint (InvisibleSec dopt))))
                   (dopt\<lparr>InvisibleSec :=
                      InvisibleSec dopt * word_of_int (max 1 (60 div sint (InvisibleSec dopt)))\<rparr>)
                   (world st) of
              ((ks, Some e), s1) \<Rightarrow> (Err e, st\<lparr>jobs := ks, world := s1\<rparr>)
            | ((ks, None), s1) \<Rightarrow> serveFirst (st\<lparr>jobs := ks, world := s1\<rparr>))"
    by (rule getDequeueFunc_refill [OF assms])
next
  assume a: "BulkDequeue bd (word_of_int (max 1 (60 div sint (InvisibleSec dopt))))
              (dopt\<lparr>InvisibleSec :=
                 InvisibleSec dopt * word_of_int (max 1 (60 div sint (InvisibleSec dopt)))\<rparr>)
              (world st) = ((js, None), s2)
            \<and> js \<noteq> [] \<and> length dopts + 1 = length js"
  then obtain j js' where js: "js = j # js'"
    by (cases js) auto
  have first: "getDequeueFunc queue dopt st = (Ok j, st\<lparr>jobs := js', world := s2\<rparr>)"
    using a js by (simp add: getDequeueFunc_refill [OF assms] serveFirst_def)
  have "dequeueMany (getDequeueFunc queue) dopts (st\<lparr>jobs := js', world := s2\<rparr>)
          = (map Ok js', st\<lparr>jobs := js', world := s2\<rparr>\<lparr>jobs := []\<rparr>)"
    using a js assms(1) by (intro dequeueMany_buffered) simp_all
  then show "dequeueMany (getDequeueFunc queue) (dopt # dopts) st
             = (map Ok js, st\<lparr>jobs := [], world := s2\<rparr>)"
    using first js by simp
qed

text \<open>Three calls of the adapter on a backend holding three jobs, with 4 invisible seconds: one bulk call for 15 jobs under 60 invisible seconds, then the jobs in order.\<close>

theorem getDequeueFunc_prefetch_witness:
  "dequeueMany (getDequeueFunc (testBulkQueue [testJob ''a'', testJob ''b'', testJob ''c'']))
     [\<lparr>dNamespace = ''ns'', dQueueID = ''q'', At = 0, InvisibleSec = 4\<rparr>,
      \<lparr>dNamespace = ''ns'', dQueueID = ''q'', At = 1, InvisibleSec = 4\<rparr>,
      \<lparr>dNamespace = ''ns'', dQueueID = ''q'', At = 2, InvisibleSec = 4\<rparr>]
     (testLoop [] [])
   = ([Ok (testJob ''a''), Ok (testJob ''b''), Ok (testJob ''c'')],
      \<lparr>jobs = [], ackJobs = [],
       world = [BulkDequeued 15 \<lparr>dNamespace = ''ns'', dQueueID = ''q'', At = 0,
                                 InvisibleSec = 60\<rparr>]\<rparr>)"
  using getDequeueFunc_prefetch [where queue = "testBulkQueue [testJob ''a'', testJob ''b'', testJob ''c'']"
      and bd = "\<lparr>BulkDequeue = (\<lambda>c d s. (([testJob ''a'', testJob ''b'', testJob ''c''], None),
                                          s @ [BulkDequeued c d])),
                  BulkAck = (\<lambda>ks a s. (None, s @ [BulkAcked ks a]))\<rparr>"
      and dopt = "\<lparr>dNamespace = ''ns'', dQueueID = ''q'', At = 0, InvisibleSec = 4\<rparr>"
      and st = "testLoop [] []"
      and js = "[testJob ''a'', testJob ''b'', testJob ''c'']"
      and ?s2.0 = "[BulkDequeued 15 \<lparr>dNamespace = ''ns'', dQueueID = ''q'', At = 0,
                                 InvisibleSec = 60\<rparr>]"
      and dopts = "[\<lparr>dNamespace = ''ns'', dQueueID = ''q'', At = 1, InvisibleSec = 4\<rparr>,
                    \<lparr>dNamespace = ''ns'', dQueueID = ''q'', At = 2, InvisibleSec = 4\<rparr>]"]
  by (simp add: testBulkQueue_def testQueue_def testLoop_def serveFirst_def getDequeueFunc_def
        div64_def signed_divide_int_def)

text \<open>
  When the bulk call returns an empty slice and no error, the adapter indexes the empty
  buffer and panics.
\<close>

lemma getDequeueFunc_empty_batch:
  assumes "Bulk queue = Some bd" and "0 < sint (InvisibleSec dopt)" and "jobs st = []"
      and "BulkDequeue bd (word_of_int (max 1 (60 div sint (InvisibleSec dopt))))
              (dopt\<lparr>InvisibleSec :=
                 InvisibleSec dopt * word_of_int (max 1 (60 div sint (InvisibleSec dopt)))\<rparr>)
              (world st) = (([], None), s1)"
  shows "getDequeueFunc queue dopt st =
           (Panic ''runtime error: index out of range [0] with length 0'', st\<lparr>world := s1\<rparr>)"
  using assms(3,4) by (simp add: getDequeueFunc_refill [OF assms(1,2,3)] serveFirst_def)

text \<open>
  C2 fails on the code. A bulk backend that answers with an empty slice and a nil error
  makes the adapter panic with an index out of range, and the panic unwinds the cycle (the
  dequeue pipeline is outside panic isolation). The same backend answering with the
  empty-queue error makes the adapter return that error and the cycle idle-wait.
\<close>

theorem getDequeueFunc_empty_batch_panics:
  "getDequeueFunc (testEmptyBulkQueue None)
     \<lparr>dNamespace = ''ns'', dQueueID = ''q'', At = 0, InvisibleSec = 4\<rparr> (testLoop [] [])
     = (Panic ''runtime error: index out of range [0] with length 0'',
        \<lparr>jobs = [], ackJobs = [],
         world = [BulkDequeued 15 \<lparr>dNamespace = ''ns'', dQueueID = ''q'', At = 0,
                                   InvisibleSec = 60\<rparr>]\<rparr>)
   \<and> getDequeueFunc (testEmptyBulkQueue (Some ErrEmptyQueue))
     \<lparr>dNamespace = ''ns'', dQueueID = ''q'', At = 0, InvisibleSec = 4\<rparr> (testLoop [] [])
     = (Err ErrEmptyQueue,
        \<lparr>jobs = [], ackJobs = [],
         world = [BulkDequeued 15 \<lparr>dNamespace = ''ns'', dQueueID = ''q'', At = 0,
                                   InvisibleSec = 60\<rparr>]\<rparr>)
   \<and> fst (cycle testRuntime (testEmptyBulkQueue None) ''ns'' (Println testRuntime) Background
            (testHandler (Ok ())) (testLoop [] []))
     = Panic ''runtime error: index out of range [0] with length 0''
   \<and> cycle testRuntime (testEmptyBulkQueue (Some ErrEmptyQueue)) ''ns'' (Println testRuntime)
        Background (testHandler (Ok ())) (testLoop [] [])
     = (Err ErrEmptyQueue,
        \<lparr>jobs = [], ackJobs = [],
         world = [BulkDequeued 15 \<lparr>dNamespace = ''ns'', dQueueID = ''q'', At = 1000,
                                   InvisibleSec = 60\<rparr>,
                  Waited 50000000]\<rparr>)"
  by (simp add: testEmptyBulkQueue_def testQueue_def testLoop_def testRuntime_def testHandler_def
        testOptions_def getDequeueFunc_def serveFirst_def cycle_def dequeuePipeline_def
        idleWait_def cycleOptions_def div64_def flushIntv_def Second_def signed_divide_int_def)

section \<open>Flushing the ack buffer\<close>

text \<open>Sequential acks stop at the first error; without one they ack the whole list.\<close>

lemma ackEach_all_ok:
  "acksSucceed queue aopt js s \<Longrightarrow> ackEach queue aopt js s = (None, ackStates queue aopt js s)"
proof (induction js arbitrary: s)
  case Nil
  then show ?case by simp
next
  case (Cons j js)
  obtain r s1 where a: "Ack queue j aopt s = (r, s1)"
    by (cases "Ack queue j aopt s") auto
  with Cons.prems have "r = None" and "acksSucceed queue aopt js s1"
    by simp_all
  then show ?case
    using a Cons.IH [of s1] by simp
qed

lemma ackStates_append:
  "ackStates queue aopt (xs @ ys) s = ackStates queue aopt ys (ackStates queue aopt xs s)"
  by (induction xs arbitrary: s) simp_all

lemma ackEach_first_error:
  "acksSucceed queue aopt pre s \<Longrightarrow>
   fst (Ack queue j aopt (ackStates queue aopt pre s)) = Some e \<Longrightarrow>
   ackEach queue aopt (pre @ j # post) s = (Some e, ackStates queue aopt (pre @ [j]) s)"
proof (induction pre arbitrary: s)
  case Nil
  then show ?case
    by (cases "Ack queue j aopt s") simp
next
  case (Cons p pre)
  obtain r s1 where a: "Ack queue p aopt s = (r, s1)"
    by (cases "Ack queue p aopt s") auto
  with Cons.prems have "r = None" and "acksSucceed queue aopt pre s1"
    and "fst (Ack queue j aopt (ackStates queue aopt pre s1)) = Some e"
    by simp_all
  then show ?case
    using a Cons.IH [of s1] by simp
qed

text \<open>A list that is not acked without error has a first job whose ack fails.\<close>

lemma acks_fail_somewhere:
  "\<not> acksSucceed queue aopt js s \<Longrightarrow>
   \<exists>pre j post e. js = pre @ j # post \<and> acksSucceed queue aopt pre s
     \<and> fst (Ack queue j aopt (ackStates queue aopt pre s)) = Some e"
proof (induction js arbitrary: s)
  case Nil
  then show ?case by simp
next
  case (Cons k ks)
  show ?case
  proof (cases "fst (Ack queue k aopt s)")
    case (Some e)
    then have "k # ks = [] @ k # ks \<and> acksSucceed queue aopt [] s
      \<and> fst (Ack queue k aopt (ackStates queue aopt [] s)) = Some e"
      by simp
    then show ?thesis by blast
  next
    case None
    with Cons.prems have "\<not> acksSucceed queue aopt ks (snd (Ack queue k aopt s))"
      by simp
    from Cons.IH [OF this] obtain pre j post e where
      "ks = pre @ j # post" "acksSucceed queue aopt pre (snd (Ack queue k aopt s))"
      "fst (Ack queue j aopt (ackStates queue aopt pre (snd (Ack queue k aopt s)))) = Some e"
      by blast
    with None have "k # ks = (k # pre) @ j # post \<and> acksSucceed queue aopt (k # pre) s
      \<and> fst (Ack queue j aopt (ackStates queue aopt (k # pre) s)) = Some e"
      by simp
    then show ?thesis by blast
  qed
qed

text \<open>
  C9. With a backend that has bulk ack, a flush passes the whole ack buffer to one
  \<open>BulkAck\<close> call; its error is the result of the flush and leaves the buffer as it was, and
  without error the buffer becomes empty. Without bulk ack the jobs are acked one call
  after the other in buffer order: when every ack succeeds the flush succeeds and the
  buffer becomes empty; otherwise there is a first job whose ack fails, the flush stops
  there and returns that error, no later job is acked, and the buffer is left as it was,
  so the failed job and the jobs after it are still in it.
\<close>

theorem flush_acks:
  "(Bulk queue = Some bd \<longrightarrow>
      flush queue ns h st =
        (case BulkAck bd (ackJobs st) \<lparr>aNamespace = ns, aQueueID = QueueID h\<rparr> (world st) of
           (Some err, s1) \<Rightarrow> (Some err, st\<lparr>world := s1\<rparr>)
         | (None, s1) \<Rightarrow> (None, st\<lparr>ackJobs := [], world := s1\<rparr>)))
   \<and> (Bulk queue = None
        \<and> acksSucceed queue \<lparr>aNamespace = ns, aQueueID = QueueID h\<rparr> (ackJobs st) (world st) \<longrightarrow>
      flush queue ns h st =
        (None, st\<lparr>ackJobs := [],
                  world := ackStates queue \<lparr>aNamespace = ns, aQueueID = QueueID h\<rparr>
                             (ackJobs st) (world st)\<rparr>))
   \<and> (Bulk queue = None
        \<and> ackJobs st = pre @ j # post
        \<and> acksSucceed queue \<lparr>aNamespace = ns, aQueueID = QueueID h\<rparr> pre (world st)
        \<and> fst (Ack queue j \<lparr>aNamespace = ns, aQueueID = QueueID h\<rparr>
                 (ackStates queue \<lparr>aNamespace = ns, aQueueID = QueueID h\<rparr> pre (world st)))
            = Some e \<longrightarrow>
      flush queue ns h st =
        (Some e, st\<lparr>world := ackStates queue \<lparr>aNamespace = ns, aQueueID = QueueID h\<rparr>
                                  (pre @ [j]) (world st)\<rparr>)
      \<and> ackJobs (snd (flush queue ns h st)) = pre @ j # post)
   \<and> (Bulk queue = None
        \<and> \<not> acksSucceed queue \<lparr>aNamespace = ns, aQueueID = QueueID h\<rparr> (ackJobs st) (world st) \<longrightarrow>
      (\<exists>pre j post e. ackJobs st = pre @ j # post
         \<and> acksSucceed queue \<lparr>aNamespace = ns, aQueueID = QueueID h\<rparr> pre (world st)
         \<and> fst (Ack queue j \<lparr>aNamespace = ns, aQueueID = QueueID h\<rparr>
                 (ackStates queue \<lparr>aNamespace = ns, aQueueID = QueueID h\<rparr> pre (world st)))
            = Some e))"
proof (intro conjI impI)
  assume "Bulk queue = Some bd"
  then show "flush queue ns h st =
        (case BulkAck bd (ackJobs st) \<lparr>aNamespace = ns, aQueueID = QueueID h\<rparr> (world st) of
           (Some err, s1) \<Rightarrow> (Some err, st\<lparr>world := s1\<rparr>)
         | (None, s1) \<Rightarrow> (None, st\<lparr>ackJobs := [], world := s1\<rparr>))"
    by (simp add: flush_def Let_def)
next
  assume a: "Bulk queue = None
        \<and> acksSucceed queue \<lparr>aNamespace = ns, aQueueID = QueueID h\<rparr> (ackJobs st) (world st)"
  then show "flush queue ns h st =
        (None, st\<lparr>ackJobs := [],
                  world := ackStates queue \<lparr>aNamespace = ns, aQueueID = QueueID h\<rparr>
                             (ackJobs st) (world st)\<rparr>)"
    by (simp add: flush_def Let_def ackEach_all_ok)
next
  assume a: "Bulk queue = None
        \<and> ackJobs st = pre @ j # post
        \<and> acksSucceed queue \<lparr>aNamespace = ns, aQueueID = QueueID h\<rparr> pre (world st)
        \<and> fst (Ack queue j \<lparr>aNamespace = ns, aQueueID = QueueID h\<rparr>
                 (ackStates queue \<lparr>aNamespace = ns, aQueueID = QueueID h\<rparr> pre (world st)))
            = Some e"
  then have e: "ackEach queue \<lparr>aNamespace = ns, aQueueID = QueueID h\<rparr> (pre @ j # post) (world st)
      = (Some e, ackStates queue \<lparr>aNamespace = ns, aQueueID = QueueID h\<rparr> (pre @ [j]) (world st))"
    by (intro ackEach_first_error) simp_all
  show f: "flush queue ns h st =
        (Some e, st\<lparr>world := ackStates queue \<lparr>aNamespace = ns, aQueueID = QueueID h\<rparr>
                                  (pre @ [j]) (world st)\<rparr>)"
    using a e by (simp add: flush_def Let_def)
  show "ackJobs (snd (flush queue ns h st)) = pre @ j # post"
    unfolding f using a by simp
next
  assume "Bulk queue = None
        \<and> \<not> acksSucceed queue \<lparr>aNamespace = ns, aQueueID = QueueID h\<rparr> (ackJobs st) (world st)"
  then show "\<exists>pre j post e. ackJobs st = pre @ j # post
         \<and> acksSucceed queue \<lparr>aNamespace = ns, aQueueID = QueueID h\<rparr> pre (world st)
         \<and> fst (Ack queue j \<lparr>aNamespace = ns, aQueueID = QueueID h\<rparr>
                 (ackStates queue \<lparr>aNamespace = ns, aQueueID = QueueID h\<rparr> pre (world st)))
            = Some e"
    by (intro acks_fail_somewhere) simp
qed

text \<open>A bulk flush, a sequential flush that succeeds, and one that stops at the job the backend refuses to ack.\<close>

theorem flush_acks_witness:
  "flush (testBulkQueue []) ''ns'' (testHandler (Ok ())) (testLoop [] [testJob ''a'', testJob ''b''])
     = (None, \<lparr>jobs = [], ackJobs = [],
               world = [BulkAcked [testJob ''a'', testJob ''b'']
                          \<lparr>aNamespace = ''ns'', aQueueID = ''q''\<rparr>]\<rparr>)
   \<and> flush testQueue ''ns'' (testHandler (Ok ())) (testLoop [] [testJob ''a'', testJob ''b''])
     = (None, \<lparr>jobs = [], ackJobs = [],
               world = [Acked (testJob ''a'') \<lparr>aNamespace = ''ns'', aQueueID = ''q''\<rparr>,
                        Acked (testJob ''b'') \<lparr>aNamespace = ''ns'', aQueueID = ''q''\<rparr>]\<rparr>)
   \<and> flush testQueue ''ns'' (testHandler (Ok ()))
        (testLoop [] [testJob ''a'', testJob ''bad'', testJob ''c''])
     = (Some (ErrorString ''ack refused''),
        \<lparr>jobs = [], ackJobs = [testJob ''a'', testJob ''bad'', testJob ''c''],
         world = [Acked (testJob ''a'') \<lparr>aNamespace = ''ns'', aQueueID = ''q''\<rparr>,
                  Acked (testJob ''bad'') \<lparr>aNamespace = ''ns'', aQueueID = ''q''\<rparr>]\<rparr>)"
  using
    flush_acks [where queue = "testBulkQueue []" and ns = "''ns''" and h = "testHandler (Ok ())"
      and st = "testLoop [] [testJob ''a'', testJob ''b'']"
      and bd = "\<lparr>BulkDequeue = (\<lambda>c d s. (([], None), s @ [BulkDequeued c d])),
                  BulkAck = (\<lambda>ks a s. (None, s @ [BulkAcked ks a]))\<rparr>"]
    flush_acks [where queue = testQueue and ns = "''ns''" and h = "testHandler (Ok ())"
      and st = "testLoop [] [testJob ''a'', testJob ''b'']"]
    flush_acks [where queue = testQueue and ns = "''ns''" and h = "testHandler (Ok ())"
      and st = "testLoop [] [testJob ''a'', testJob ''bad'', testJob ''c'']"
      and pre = "[testJob ''a'']" and j = "testJob ''bad''" and post = "[testJob ''c'']"
      and e = "ErrorString ''ack refused''"]
  by (simp add: testBulkQueue_def testQueue_def testHandler_def testLoop_def testJob_def)

section \<open>Stopping a worker that was never started\<close>

text \<open>Registrations do not touch the cancel function or the wait group.\<close>

lemma registerAll_never_started:
  "cancel w = None \<Longrightarrow> wg w = 0 \<Longrightarrow>
   cancel (registerAll regs w) = None \<and> wg (registerAll regs w) = 0
   \<and> cancelled (registerAll regs w) = cancelled w"
proof (induction regs arbitrary: w)
  case Nil
  then show ?case by simp
next
  case (Cons r regs)
  have "cancel (snd (RegisterWithContext (fst r) (fst (snd r)) (snd (snd r)) w)) = None"
    and "wg (snd (RegisterWithContext (fst r) (fst (snd r)) (snd (snd r)) w)) = 0"
    and "cancelled (snd (RegisterWithContext (fst r) (fst (snd r)) (snd (snd r)) w)) = cancelled w"
    using Cons.prems by (simp_all add: RegisterWithContext_def split: option.splits)
  then show ?case
    using Cons.IH [of "snd (RegisterWithContext (fst r) (fst (snd r)) (snd (snd r)) w)"]
    by simp
qed

text \<open>
  C10. On a new worker on which only registrations were made (\<open>Start\<close> was never called),
  \<open>Stop\<close> finds no cancel function and a wait group at zero: it returns at once and the
  worker is unchanged.
\<close>

theorem Stop_never_started:
  "Stop (registerAll regs (NewWorker wo)) = Returned (registerAll regs (NewWorker wo))"
proof -
  have "cancel (registerAll regs (NewWorker wo)) = None \<and> wg (registerAll regs (NewWorker wo)) = 0
    \<and> cancelled (registerAll regs (NewWorker wo)) = cancelled (NewWorker wo)"
    by (rule registerAll_never_started) (simp_all add: NewWorker_def)
  then show ?thesis
    by (simp add: Stop_def)
qed

text \<open>After \<open>Start\<close> the same call cancels and has to wait for the loops.\<close>

lemma Stop_after_Start_waits:
  "Stop (Start (snd (RegisterWithContext ''q'' (HandleFunc (testHandler (Ok ()))) (testOptions Second)
           (NewWorker \<lparr>Namespace = ''ns'', Queue = Some testQueue, ErrorFunc = None\<rparr>))))
   = Waiting
      ((Start (snd (RegisterWithContext ''q'' (HandleFunc (testHandler (Ok ()))) (testOptions Second)
           (NewWorker \<lparr>Namespace = ''ns'', Queue = Some testQueue, ErrorFunc = None\<rparr>))))
       \<lparr>cancelled := True\<rparr>)"
  by (simp add: Stop_def Start_def RegisterWithContext_def Validate_def NewWorker_def
        testOptions_def Second_def)

end
